theory Spec2Isabelle
  imports Complex_Main "HOL-Library.Sublist" "HOL-Library.Word"
begin

section \<open>Website audit server: snapshot capture and model response reconciliation\<close>

text \<open>
  A shallow embedding of \<^verbatim>\<open>backend-server.js\<close> (the revision with the style probe,
  the viewport stress tests and the Gemini model ladder): \<^verbatim>\<open>fetchWebsiteSimple\<close>,
  \<^verbatim>\<open>fetchWebsiteContent\<close> and the Gemini branch of the \<^verbatim>\<open>/api/audit\<close> handler.

  Conventions. An awaited call either rejects with a message or resolves to a value
  (\<open>outcome\<close>); a \<^verbatim>\<open>try/catch\<close> is a case distinction on it. A JavaScript
  property is missing from the object, \<^verbatim>\<open>null\<close>, or holds a value (\<open>js_field\<close>).
  What the browser, the network and the generation backend answer is an input of the
  model. The strings of a page and the messages of errors are \<open>string\<close>: code
  units below 256. The response of the generation backend is a \<open>js_string\<close>: 16-bit
  code units.
\<close>

datatype 'a outcome = Throws string | Returns 'a

datatype 'a js_field = Absent | Null | Present 'a

subsection \<open>Viewport stress tests: the functions evaluated in the page\<close>

text \<open>
  The reflow test reads three integers of the page at 320px width:
  \<^verbatim>\<open>document.body.scrollWidth\<close>, \<^verbatim>\<open>window.innerWidth\<close> and
  \<^verbatim>\<open>document.documentElement.clientWidth\<close>.
\<close>

record reflow_page =
  body_scrollWidth :: int
  window_innerWidth :: int
  documentElement_clientWidth :: int

record reflow_test =
  viewportWidth :: int
  bodyWidth :: int
  hasHorizontalScroll :: bool
  scrollbarWidth :: int
  meetsReflowRequirement :: bool

definition reflow_evaluate :: "reflow_page \<Rightarrow> reflow_test" where
  "reflow_evaluate p =
     (let bodyWidth = body_scrollWidth p;
          viewportWidth = window_innerWidth p;
          hasHorizontalScroll = (bodyWidth > viewportWidth);
          scrollbarWidth = window_innerWidth p - documentElement_clientWidth p
      in \<lparr> viewportWidth = viewportWidth,
           bodyWidth = bodyWidth,
           hasHorizontalScroll = hasHorizontalScroll,
           scrollbarWidth = scrollbarWidth,
           meetsReflowRequirement = (\<not> hasHorizontalScroll \<or> scrollbarWidth = 0) \<rparr>)"

text \<open>
  The zoom test reads the body's scroll box before and after setting
  \<^verbatim>\<open>style.zoom = '2'\<close>, and the window's inner box; it resets the zoom before it
  resolves.
\<close>

record zoom_page =
  original_scrollWidth :: int
  original_scrollHeight :: int
  zoomed_scrollWidth :: int
  zoomed_scrollHeight :: int
  zoom_innerWidth :: int
  zoom_innerHeight :: int

record zoom_test =
  zoomLevel :: int
  originalWidth :: int
  originalHeight :: int
  zoomedWidth :: int
  zoomedHeight :: int
  zoom_viewportWidth :: int
  zoom_viewportHeight :: int
  zoom_hasHorizontalScroll :: bool
  zoom_hasVerticalScroll :: bool
  meetsZoomRequirement :: bool

definition zoom_evaluate :: "zoom_page \<Rightarrow> zoom_test" where
  "zoom_evaluate p =
     (let newBodyWidth = zoomed_scrollWidth p;
          newBodyHeight = zoomed_scrollHeight p;
          viewportWidth = zoom_innerWidth p;
          viewportHeight = zoom_innerHeight p
      in \<lparr> zoomLevel = 2,
           originalWidth = original_scrollWidth p,
           originalHeight = original_scrollHeight p,
           zoomedWidth = newBodyWidth,
           zoomedHeight = newBodyHeight,
           zoom_viewportWidth = viewportWidth,
           zoom_viewportHeight = viewportHeight,
           zoom_hasHorizontalScroll = (newBodyWidth > viewportWidth),
           zoom_hasVerticalScroll = (newBodyHeight > viewportHeight),
           meetsZoomRequirement = True \<rparr>)"

text \<open>
  Each test runs in its own \<^verbatim>\<open>try\<close>: a rejection of \<^verbatim>\<open>setViewport\<close> or of
  \<^verbatim>\<open>evaluate\<close> leaves the field \<^verbatim>\<open>null\<close>.
\<close>

definition reflow_stage :: "reflow_page outcome \<Rightarrow> reflow_test js_field" where
  "reflow_stage r = (case r of Throws reflowError \<Rightarrow> Null | Returns p \<Rightarrow> Present (reflow_evaluate p))"

definition zoom_stage :: "zoom_page outcome \<Rightarrow> zoom_test js_field" where
  "zoom_stage r = (case r of Throws zoomError \<Rightarrow> Null | Returns p \<Rightarrow> Present (zoom_evaluate p))"

subsection \<open>JavaScript strings and numbers\<close>

text \<open>
  \<^verbatim>\<open>\s\<close> in a regular expression and \<^verbatim>\<open>trim()\<close> use the same set of white space
  and line terminators; below 256 these are TAB, LF, VT, FF, CR, space and NBSP.
\<close>

definition js_space :: "char \<Rightarrow> bool" where
  "js_space c \<longleftrightarrow> (of_char c :: nat) \<in> {9, 10, 11, 12, 13, 32, 160}"

definition trim :: "string \<Rightarrow> string" where
  "trim s = rev (dropWhile js_space (rev (dropWhile js_space s)))"

definition substring0 :: "nat \<Rightarrow> string \<Rightarrow> string" where
  \<comment> \<open>\<^verbatim>\<open>s.substring(0, n)\<close>\<close>
  "substring0 n s = take n s"

definition Math_round :: "real \<Rightarrow> int" where
  \<comment> \<open>\<^verbatim>\<open>Math.round\<close>: the nearest integer, a tie going up\<close>
  "Math_round x = \<lfloor>x + 1 / 2\<rfloor>"

text \<open>
  \<^verbatim>\<open>parseFloat(v) || d\<close> and \<^verbatim>\<open>parseInt(v) || d\<close>: the parse gives a number or NaN
  (\<open>None\<close>), and both NaN and 0 are falsy.
\<close>

definition or_default :: "'a::zero option \<Rightarrow> 'a \<Rightarrow> 'a" where
  "or_default parsed d = (case parsed of None \<Rightarrow> d | Some v \<Rightarrow> if v = 0 then d else v)"

text \<open>
  A JavaScript string is a sequence of 16-bit code units. The response of the generation
  backend, which may hold any of them, is a list of code units (\<open>js_string\<close>); a
  literal of the source, whose characters are all below 256, stands for the code units
  of its characters. White space and line terminators, over all code units: TAB, LF, VT,
  FF, CR, space, NBSP, U+1680, U+2000 to U+200A, U+2028, U+2029, U+202F, U+205F, U+3000
  and U+FEFF.
\<close>

type_synonym code_unit = "16 word"

type_synonym js_string = "code_unit list"

definition unit_of :: "char \<Rightarrow> code_unit" where
  "unit_of c = of_char c"

definition code_units :: "string \<Rightarrow> js_string" where
  "code_units s = map unit_of s"

definition space_unit :: "code_unit \<Rightarrow> bool" where
  "space_unit c \<longleftrightarrow>
     c \<in> {9, 10, 11, 12, 13, 32, 160, 5760, 8232, 8233, 8239, 8287, 12288, 65279}
     \<or> (8192 \<le> c \<and> c \<le> 8202)"

definition trim_text :: "js_string \<Rightarrow> js_string" where
  \<comment> \<open>\<^verbatim>\<open>s.trim()\<close>\<close>
  "trim_text s = rev (dropWhile space_unit (rev (dropWhile space_unit s)))"

subsection \<open>Style probe: target sizes\<close>

text \<open>
  What the probe reads of one element. The desktop probe parses the computed paddings
  with \<^verbatim>\<open>parseFloat\<close>, the mobile probe with \<^verbatim>\<open>parseInt\<close>.

  The desktop probe adds doubles that need not be integers, and a sum of doubles is
  rounded. A double is the real number it stands for, and the platform's addition of
  doubles is the parameter \<open>dplus\<close> of the desktop functions: nothing is assumed of it.
  The mobile probe adds rounded sizes and parsed integers, whose sums are exact.
\<close>

record desktop_element =
  d_tagName :: string           \<comment> \<open>\<^verbatim>\<open>el.tagName.toLowerCase()\<close>\<close>
  d_textContent :: string
  d_rect_width :: real
  d_rect_height :: real
  d_paddingTop :: "real option"
  d_paddingBottom :: "real option"
  d_paddingLeft :: "real option"
  d_paddingRight :: "real option"

record target_size =
  ts_tag :: string
  ts_text :: string
  ts_width :: int
  ts_height :: int
  ts_effectiveWidth :: int
  ts_effectiveHeight :: int
  meets24x24 :: bool

definition desktop_effectiveWidth :: "(real \<Rightarrow> real \<Rightarrow> real) \<Rightarrow> desktop_element \<Rightarrow> real" where
  \<comment> \<open>\<^verbatim>\<open>rect.width + paddingLeft + paddingRight\<close>, added from the left\<close>
  "desktop_effectiveWidth dplus el =
     dplus (dplus (d_rect_width el) (or_default (d_paddingLeft el) 0))
          (or_default (d_paddingRight el) 0)"

definition desktop_effectiveHeight :: "(real \<Rightarrow> real \<Rightarrow> real) \<Rightarrow> desktop_element \<Rightarrow> real" where
  \<comment> \<open>\<^verbatim>\<open>rect.height + paddingTop + paddingBottom\<close>, added from the left\<close>
  "desktop_effectiveHeight dplus el =
     dplus (dplus (d_rect_height el) (or_default (d_paddingTop el) 0))
          (or_default (d_paddingBottom el) 0)"

definition desktop_target :: "(real \<Rightarrow> real \<Rightarrow> real) \<Rightarrow> desktop_element \<Rightarrow> target_size" where
  "desktop_target dplus el =
     (let effectiveWidth = desktop_effectiveWidth dplus el;
          effectiveHeight = desktop_effectiveHeight dplus el
      in \<lparr> ts_tag = d_tagName el,
           ts_text = substring0 40 (trim (d_textContent el)),
           ts_width = Math_round (d_rect_width el),
           ts_height = Math_round (d_rect_height el),
           ts_effectiveWidth = Math_round effectiveWidth,
           ts_effectiveHeight = Math_round effectiveHeight,
           meets24x24 = (effectiveWidth \<ge> 24 \<and> effectiveHeight \<ge> 24) \<rparr>)"

definition targetSizes :: "(real \<Rightarrow> real \<Rightarrow> real) \<Rightarrow> desktop_element list \<Rightarrow> target_size list" where
  \<comment> \<open>\<^verbatim>\<open>forEach((el, index) => { if (index < 30) ... push ... })\<close>\<close>
  "targetSizes dplus els = map (desktop_target dplus) (take 30 els)"

record mobile_element =
  m_tagName :: string           \<comment> \<open>\<^verbatim>\<open>el.tagName.toLowerCase()\<close>\<close>
  m_textContent :: string
  m_rect_width :: real
  m_rect_height :: real
  m_rect_x :: real
  m_rect_y :: real
  m_fontSize :: "int option"
  m_paddingTop :: "int option"
  m_paddingBottom :: "int option"
  m_paddingLeft :: "int option"
  m_paddingRight :: "int option"

record element_size =
  size_width :: int
  size_height :: int
  size_x :: int
  size_y :: int

definition getElementSize :: "mobile_element \<Rightarrow> element_size" where
  "getElementSize el =
     \<lparr> size_width = Math_round (m_rect_width el),
       size_height = Math_round (m_rect_height el),
       size_x = Math_round (m_rect_x el),
       size_y = Math_round (m_rect_y el) \<rparr>"

record touch_target =
  tt_tag :: string
  tt_text :: string
  tt_size :: element_size
  effectiveSize_width :: int
  effectiveSize_height :: int
  tt_fontSize :: int
  meetsWCAG :: bool

definition touch_target_of :: "mobile_element \<Rightarrow> touch_target" where
  "touch_target_of el =
     (let size = getElementSize el;
          fontSize = or_default (m_fontSize el) 16;
          paddingTop = or_default (m_paddingTop el) 0;
          paddingBottom = or_default (m_paddingBottom el) 0;
          paddingLeft = or_default (m_paddingLeft el) 0;
          paddingRight = or_default (m_paddingRight el) 0;
          effectiveWidth = size_width size + paddingLeft + paddingRight;
          effectiveHeight = size_height size + paddingTop + paddingBottom
      in \<lparr> tt_tag = m_tagName el,
           tt_text = substring0 50 (trim (m_textContent el)),
           tt_size = size,
           effectiveSize_width = effectiveWidth,
           effectiveSize_height = effectiveHeight,
           tt_fontSize = fontSize,
           meetsWCAG = (effectiveWidth \<ge> 44 \<and> effectiveHeight \<ge> 44) \<rparr>)"

definition interactiveElements :: "mobile_element list list \<Rightarrow> touch_target list" where
  \<comment> \<open>one list of matches per selector, the first 20 of each\<close>
  "interactiveElements matches = concat (map (\<lambda>els. map touch_target_of (take 20 els)) matches)"

text \<open>
  Of each record the probe pushes, \<^verbatim>\<open>hasLabel\<close> is left out of \<open>touch_target\<close>: it is
  the first truthy one of two attribute strings and a comparison, and no property below
  reads it.
\<close>

subsection \<open>Mobile emulator: the functions evaluated in the mobile page\<close>

function collapse_space :: "string \<Rightarrow> string" where
  \<comment> \<open>\<^verbatim>\<open>s.replace(/\s+/g, ' ')\<close>\<close>
  "collapse_space [] = []"
| "collapse_space (c # cs) =
     (if js_space c then CHR '' '' # collapse_space (dropWhile js_space cs)
      else c # collapse_space cs)"
  by pat_completeness auto
termination
  by (relation "measure length") (auto simp: less_Suc_eq_le length_dropWhile_le)

record viewport_facts =
  vp_width :: int
  vp_height :: int
  metaTag :: "string option"
  hasViewportMeta :: bool

record non_compliant =
  nc_element :: string
  nc_size :: "int \<times> int"       \<comment> \<open>rendered as \<^verbatim>\<open>`${width}x${height}px`\<close>\<close>
  nc_required :: string

record touch_targets =
  total_count :: nat                 \<comment> \<open>\<^verbatim>\<open>total\<close>\<close>
  compliant :: nat
  nonCompliant :: "non_compliant list"
  details :: "touch_target list js_field"

record spacing_issue =
  element1 :: string
  element2 :: string
  distance :: int

definition spacing_pair :: "touch_target \<Rightarrow> touch_target \<Rightarrow> spacing_issue list" where
  "spacing_pair el1 el2 =
     (let distanceX = \<bar>size_x (tt_size el1) - size_x (tt_size el2)\<bar>;
          distanceY = \<bar>size_y (tt_size el1) - size_y (tt_size el2)\<bar>;
          minDistance = 8
      in if distanceX < minDistance \<and> distanceY < minDistance
         then [\<lparr> element1 = substring0 30 (tt_text el1),
                  element2 = substring0 30 (tt_text el2),
                  distance = min distanceX distanceY \<rparr>]
         else [])"

fun spacingIssues :: "touch_target list \<Rightarrow> spacing_issue list" where
  "spacingIssues [] = []"
| "spacingIssues (el1 # rest) = concat (map (spacing_pair el1) rest) @ spacingIssues rest"

record typography =
  bodyFontSize :: int
  bodyLineHeight :: real
  meetsMinimum :: bool

text \<open>
  What \<^verbatim>\<open>cheerio\<close> selects in a mobile HTML text; the link and button records it
  maps them to are not looked into (type \<open>'j\<close>).
\<close>

record 'j mobile_structured =
  ms_h1 :: "string list"
  ms_h2 :: "string list"
  ms_h3 :: "string list"
  ms_buttons :: "'j list"
  ms_links :: "'j list"
  ms_forms :: nat

record 'j mobile_data =
  viewport :: viewport_facts
  touchTargets :: touch_targets
  spacing_issues :: "spacing_issue list"
  hasMobileMediaQueries :: bool
  breakpoints :: "string list"
  mobile_typography :: typography
  mobile_textContent :: string
  mobile_cssAnalysis :: "'j js_field"
  mobile_structuredData :: "'j mobile_structured"
  mobile_html :: string

text \<open>
  What the full mobile extraction reads: the window box, the viewport meta tag (\<open>None\<close>
  without a tag, else its \<^verbatim>\<open>content\<close> attribute or \<^verbatim>\<open>null\<close>), the matches of the
  seven selectors, the media texts of the media rules that the loop over the style sheets
  reaches, the body's parsed font size and line height, its inner text, the link and spacing facts of
  the mobile style analysis (not looked into), and on the server the page's HTML and what
  \<^verbatim>\<open>cheerio\<close> selects in it.
\<close>

record 'j mobile_page =
  mp_innerWidth :: int
  mp_innerHeight :: int
  mp_viewportMeta :: "string option option"
  mp_matches :: "mobile_element list list"
  mp_mediaTexts :: "string list"
  mp_bodyFontSize :: "int option"
  mp_bodyLineHeight :: "real option"
  mp_innerText :: string
  mp_cssAnalysis :: 'j
  mp_content :: string
  mp_selected :: "'j mobile_structured"

definition mobile_evaluate :: "'j mobile_page \<Rightarrow> 'j mobile_data" where
  "mobile_evaluate p =
     (let viewportMeta = mp_viewportMeta p;
          viewportContent = (case viewportMeta of None \<Rightarrow> None | Some content \<Rightarrow> content);
          els = interactiveElements (mp_matches p);
          mobileBreakpoints =
            filter (\<lambda>mediaText. sublist ''max-width'' mediaText \<or> sublist ''min-width'' mediaText)
              (mp_mediaTexts p);
          bodyFontSize = or_default (mp_bodyFontSize p) 16;
          bodyLineHeight = or_default (mp_bodyLineHeight p) (3 / 2);
          sel = mp_selected p
      in \<lparr> viewport = \<lparr> vp_width = mp_innerWidth p, vp_height = mp_innerHeight p,
                         metaTag = viewportContent, hasViewportMeta = (viewportMeta \<noteq> None) \<rparr>,
           touchTargets =
             \<lparr> total_count = length els,
               compliant = length (filter meetsWCAG els),
               nonCompliant =
                 map (\<lambda>el. \<lparr> nc_element = substring0 50 (tt_text el),
                               nc_size = (effectiveSize_width el, effectiveSize_height el),
                               nc_required = ''44x44px minimum'' \<rparr>)
                   (filter (\<lambda>el. \<not> meetsWCAG el) els),
               details = Present (take 30 els) \<rparr>,
           spacing_issues = take 10 (spacingIssues els),
           hasMobileMediaQueries = (mobileBreakpoints \<noteq> []),
           breakpoints = take 5 mobileBreakpoints,
           mobile_typography =
             \<lparr> bodyFontSize = bodyFontSize, bodyLineHeight = bodyLineHeight,
               meetsMinimum = (bodyFontSize \<ge> 16) \<rparr>,
           mobile_textContent = substring0 30000 (trim (collapse_space (mp_innerText p))),
           mobile_cssAnalysis = Present (mp_cssAnalysis p),
           mobile_structuredData = sel \<lparr> ms_links := take 30 (ms_links sel) \<rparr>,
           mobile_html = substring0 100000 (mp_content p) \<rparr>)"

text \<open>What the reduced extraction of the \<^verbatim>\<open>catch\<close> block reads.\<close>

record basic_page =
  bp_innerWidth :: int
  bp_innerHeight :: int
  bp_viewportMeta :: "string option option"
  bp_count :: nat               \<comment> \<open>matches of \<^verbatim>\<open>'button, a, input, select, textarea'\<close>\<close>
  bp_bodyFontSize :: "int option"
  bp_bodyLineHeight :: "real option"
  bp_innerText :: string
  bp_outerHTML :: string

definition basic_evaluate :: "basic_page \<Rightarrow> 'j mobile_data" where
  "basic_evaluate p =
     \<lparr> viewport =
         \<lparr> vp_width = bp_innerWidth p, vp_height = bp_innerHeight p,
           metaTag = (case bp_viewportMeta p of
                        Some (Some content) \<Rightarrow> if content = [] then None else Some content
                      | _ \<Rightarrow> None),
           hasViewportMeta = (bp_viewportMeta p \<noteq> None) \<rparr>,
       touchTargets = \<lparr> total_count = bp_count p, compliant = 0, nonCompliant = [], details = Absent \<rparr>,
       spacing_issues = [],
       hasMobileMediaQueries = False,
       breakpoints = [],
       mobile_typography =
         \<lparr> bodyFontSize = or_default (bp_bodyFontSize p) 16,
           bodyLineHeight = or_default (bp_bodyLineHeight p) (3 / 2),
           meetsMinimum = True \<rparr>,
       mobile_textContent = substring0 10000 (trim (collapse_space (bp_innerText p))),
       mobile_cssAnalysis = Absent,
       mobile_structuredData =
         \<lparr> ms_h1 = [], ms_h2 = [], ms_h3 = [], ms_buttons = [], ms_links = [], ms_forms = 0 \<rparr>,
       mobile_html = substring0 50000 (bp_outerHTML p) \<rparr>"

text \<open>
  The full extraction holds every part of the mobile data; the reduced one has neither
  the style analysis nor the per-target details.
\<close>

definition fully_populated :: "'j mobile_data \<Rightarrow> bool" where
  "fully_populated m \<longleftrightarrow>
     (case mobile_cssAnalysis m of Present _ \<Rightarrow> True | _ \<Rightarrow> False) \<and>
     (case details (touchTargets m) of Present _ \<Rightarrow> True | _ \<Rightarrow> False)"

definition mobile_stage :: "'j mobile_page outcome \<Rightarrow> basic_page outcome \<Rightarrow> 'j mobile_data js_field" where
  "mobile_stage full basic =
     (case full of
        Returns p \<Rightarrow> Present (mobile_evaluate p)
      | Throws mobileError \<Rightarrow>
          (case basic of
             Returns b \<Rightarrow> Present (basic_evaluate b)
           | Throws fallbackError \<Rightarrow> Null))"

subsection \<open>DOM extractor\<close>

text \<open>
  What \<^verbatim>\<open>cheerio\<close> selects in an HTML text. The link, image and button records are
  not looked into (type \<open>'j\<close>).
\<close>

record 'j selected =
  sel_title :: string
  sel_metaDescription :: "string option"
  sel_h1 :: "string list"
  sel_h2 :: "string list"
  sel_h3 :: "string list"
  sel_links :: "'j list"
  sel_images :: "'j list"
  sel_forms :: nat
  sel_buttons :: "'j list"
  sel_bodyText :: string

record 'j structured_data =
  title :: string
  metaDescription :: string
  h1 :: "string list"
  h2 :: "string list"
  h3 :: "string list"
  links :: "'j list"
  images :: "'j list"
  forms :: nat
  buttons :: "'j list"
  textContent :: string

definition structured :: "string \<Rightarrow> 'j selected \<Rightarrow> 'j structured_data" where
  \<comment> \<open>\<open>page_title\<close> is \<^verbatim>\<open>await page.title()\<close>; the lightweight fetcher has none\<close>
  "structured page_title sel =
     \<lparr> title = (if page_title \<noteq> [] then page_title
                else if sel_title sel \<noteq> [] then sel_title sel else ''No title''),
       metaDescription = (case sel_metaDescription sel of None \<Rightarrow> [] | Some content \<Rightarrow> content),
       h1 = sel_h1 sel, h2 = sel_h2 sel, h3 = sel_h3 sel,
       links = take 50 (sel_links sel),
       images = take 30 (sel_images sel),
       forms = sel_forms sel,
       buttons = sel_buttons sel,
       textContent = substring0 50000 (trim (collapse_space (sel_bodyText sel))) \<rparr>"

subsection \<open>Snapshot\<close>

text \<open>
  Of the desktop style analysis the target sizes are modelled; its other fact lists come
  from the same \<^verbatim>\<open>evaluate\<close> call and are carried as they are.
\<close>

record 'j css_analysis =
  css_targetSizes :: "target_size list"
  css_other :: 'j

record 'j snapshot =
  url :: string
  html :: string
  structuredData :: "'j structured_data"
  cssAnalysis :: "'j css_analysis js_field"
  reflowTest :: "reflow_test js_field"
  zoomTest :: "zoom_test js_field"
  mobileData :: "'j mobile_data js_field"
  fetchedAt :: string

subsection \<open>The world of one capture\<close>

record response =
  status :: nat
  statusText :: string
  text_body :: "string outcome"    \<comment> \<open>\<^verbatim>\<open>await response.text()\<close>\<close>

definition ok :: "response \<Rightarrow> bool" where
  "ok r \<longleftrightarrow> 200 \<le> status r \<and> status r < 300"

text \<open>
  One field for each awaited call, or run of awaited calls with the same handler, in the
  order of \<^verbatim>\<open>fetchWebsiteContent\<close>.
\<close>

record 'j world =
  puppeteer :: bool                                   \<comment> \<open>\<^verbatim>\<open>require('puppeteer')\<close> succeeded\<close>
  launch :: "unit outcome"                            \<comment> \<open>\<^verbatim>\<open>puppeteer.launch\<close>\<close>
  open_page :: "unit outcome"                         \<comment> \<open>\<^verbatim>\<open>newPage, setUserAgent, setViewport\<close>\<close>
  goto_networkidle0 :: "unit outcome"
  goto_domcontentloaded :: "unit outcome"
  scroll :: "unit outcome"                            \<comment> \<open>the auto-scroll \<^verbatim>\<open>evaluate\<close>\<close>
  page_content :: "(string \<times> string) outcome"        \<comment> \<open>\<^verbatim>\<open>page.content()\<close>, \<^verbatim>\<open>page.title()\<close>\<close>
  css_probe :: "(desktop_element list \<times> 'j) outcome"
  reflow_probe :: "reflow_page outcome"               \<comment> \<open>\<^verbatim>\<open>setViewport\<close> to 320, \<^verbatim>\<open>evaluate\<close>\<close>
  zoom_probe :: "zoom_page outcome"                   \<comment> \<open>\<^verbatim>\<open>setViewport\<close> to 1920, \<^verbatim>\<open>evaluate\<close>\<close>
  reset_viewport :: "unit outcome"
  mobile_probe :: "'j mobile_page outcome"            \<comment> \<open>everything in the mobile \<^verbatim>\<open>try\<close>\<close>
  basic_probe :: "basic_page outcome"                 \<comment> \<open>the \<^verbatim>\<open>evaluate\<close> of its \<^verbatim>\<open>catch\<close>\<close>
  close :: "unit outcome"                             \<comment> \<open>\<^verbatim>\<open>browser.close()\<close> before the return\<close>
  close_in_catch :: "unit outcome"                    \<comment> \<open>\<^verbatim>\<open>browser.close()\<close> in the outer \<^verbatim>\<open>catch\<close>\<close>
  fetch :: "response outcome"                         \<comment> \<open>the plain HTTP GET\<close>
  cheerio :: "string \<Rightarrow> 'j selected"
  plus_double :: "real \<Rightarrow> real \<Rightarrow> real"                \<comment> \<open>the addition of doubles in the page\<close>
  now :: string                                       \<comment> \<open>\<^verbatim>\<open>new Date().toISOString()\<close>\<close>

datatype browser_state = NotLaunched | Open | Closed

subsection \<open>Lightweight fetcher\<close>

function decimal :: "nat \<Rightarrow> string" where
  "decimal n = (if n < 10 then [char_of (48 + n)] else decimal (n div 10) @ [char_of (48 + n mod 10)])"
  by pat_completeness auto
termination
  by (relation "measure id") auto

declare decimal.simps [simp del]

definition fetchWebsiteSimple :: "'j world \<Rightarrow> string \<Rightarrow> 'j snapshot outcome" where
  "fetchWebsiteSimple w u =
     (case fetch w of
        Throws message \<Rightarrow> Throws (''Simple fetch failed: '' @ message)
      | Returns r \<Rightarrow>
          if \<not> ok r
          then Throws (''Simple fetch failed: '' @ ''HTTP '' @ decimal (status r) @ '': '' @ statusText r)
          else (case text_body r of
                  Throws message \<Rightarrow> Throws (''Simple fetch failed: '' @ message)
                | Returns doc \<Rightarrow>
                    Returns \<lparr> url = u,
                              html = substring0 200000 doc,
                              structuredData = structured [] (cheerio w doc),
                              cssAnalysis = Absent,
                              reflowTest = Absent,
                              zoomTest = Absent,
                              mobileData = Null,
                              fetchedAt = now w \<rparr>))"

subsection \<open>Snapshot orchestrator\<close>

definition css_stage ::
  "(real \<Rightarrow> real \<Rightarrow> real) \<Rightarrow> (desktop_element list \<times> 'j) outcome \<Rightarrow> 'j css_analysis js_field" where
  "css_stage dplus r =
     (case r of
        Throws cssError \<Rightarrow> Null
      | Returns (els, other) \<Rightarrow>
          Present \<lparr> css_targetSizes = targetSizes dplus els, css_other = other \<rparr>)"

text \<open>
  The body of the outer \<^verbatim>\<open>try\<close> once the browser is launched. Both navigation
  attempts are caught and the capture goes on with whatever loaded, so their outcomes are
  not read.
\<close>

definition render :: "'j world \<Rightarrow> string \<Rightarrow> 'j snapshot outcome" where
  "render w u =
     (case open_page w of
        Throws m \<Rightarrow> Throws m
      | Returns _ \<Rightarrow>
     (case scroll w of
        Throws m \<Rightarrow> Throws m
      | Returns _ \<Rightarrow>
     (case page_content w of
        Throws m \<Rightarrow> Throws m
      | Returns (doc, page_title) \<Rightarrow>
     (let structured_desktop = structured page_title (cheerio w doc);
          desktopCSSAnalysis = css_stage (plus_double w) (css_probe w);
          reflow = reflow_stage (reflow_probe w);
          zoom = zoom_stage (zoom_probe w)
      in
     (case reset_viewport w of
        Throws m \<Rightarrow> Throws m
      | Returns _ \<Rightarrow>
     (let mobile = mobile_stage (mobile_probe w) (basic_probe w)
      in
     (case close w of
        Throws m \<Rightarrow> Throws m
      | Returns _ \<Rightarrow>
          Returns \<lparr> url = u,
                    html = substring0 200000 doc,
                    structuredData = structured_desktop,
                    cssAnalysis = desktopCSSAnalysis,
                    reflowTest = reflow,
                    zoomTest = zoom,
                    mobileData = mobile,
                    fetchedAt = now w \<rparr>)))))))"

text \<open>
  \<^verbatim>\<open>fetchWebsiteContent\<close>, with the state the browser process is left in. The outer
  \<^verbatim>\<open>catch\<close> closes a launched browser, ignoring a failure of that, and falls back to
  the lightweight fetcher, whose rejection is the rejection of the capture.
\<close>

definition fetchWebsiteContent :: "'j world \<Rightarrow> string \<Rightarrow> 'j snapshot outcome \<times> browser_state" where
  "fetchWebsiteContent w u =
     (if puppeteer w then
        (case launch w of
           Throws puppeteerError \<Rightarrow> (fetchWebsiteSimple w u, NotLaunched)
         | Returns _ \<Rightarrow>
             (case render w u of
                Returns snap \<Rightarrow> (Returns snap, Closed)
              | Throws puppeteerError \<Rightarrow>
                  (fetchWebsiteSimple w u,
                   case close_in_catch w of Returns _ \<Rightarrow> Closed | Throws e \<Rightarrow> Open)))
      else (fetchWebsiteSimple w u, NotLaunched))"

subsection \<open>Model attempt ladder\<close>

definition default_models :: "string list" where
  "default_models =
     [''gemini-3-pro-preview'', ''gemini-2.5-pro'', ''gemini-2.5-flash'', ''gemini-2.0-flash'']"

definition unique :: "'a list \<Rightarrow> 'a list" where
  \<comment> \<open>\<^verbatim>\<open>[...new Set(xs)]\<close>: a set keeps the order of first insertion\<close>
  "unique xs = foldl (\<lambda>seen x. if x \<in> set seen then seen else seen @ [x]) [] xs"

definition modelsToTry :: "string \<Rightarrow> string list" where
  "modelsToTry requested =
     (if requested \<noteq> [] \<and> requested \<in> set default_models
      then unique (requested # default_models)
      else default_models)"

text \<open>
  A resolved \<^verbatim>\<open>generateContent\<close>: the text of the response, whose getter may throw,
  and the two token counts of its usage metadata when present.
\<close>

record generation =
  response_text :: "js_string outcome"
  promptTokenCount :: "nat option"
  candidatesTokenCount :: "nat option"

record ladder =
  result :: "generation option"
  modelName :: string
  lastError :: "string option"      \<comment> \<open>the message of the last caught error\<close>

fun try_models :: "(string \<Rightarrow> generation outcome) \<Rightarrow> string list \<Rightarrow> ladder \<Rightarrow> ladder" where
  "try_models generateContent [] st = st"
| "try_models generateContent (tryModel # rest) st =
     (case generateContent tryModel of
        Returns g \<Rightarrow> st \<lparr> result := Some g, modelName := tryModel \<rparr>
      | Throws message \<Rightarrow> try_models generateContent rest (st \<lparr> lastError := Some message \<rparr>))"

definition all_failed_message :: "string option \<Rightarrow> string" where
  "all_failed_message err =
     ''Gemini API error: All models failed. Last error: '' @
     (case err of
        None \<Rightarrow> ''Unknown error''
      | Some message \<Rightarrow> if message = [] then ''Unknown error'' else message) @
     ''. Note: Some models may require billing to be enabled in Google AI Studio.''"

text \<open>The message of a rejection, if the call rejected.\<close>

definition thrown :: "'a outcome \<Rightarrow> string option" where
  "thrown r = (case r of Throws message \<Rightarrow> Some message | Returns _ \<Rightarrow> None)"

subsection \<open>Model response reconciler\<close>

function remove_json_fences :: "js_string \<Rightarrow> js_string" where
  \<comment> \<open>\<^verbatim>\<open>s.replace(/```json\s*/g, '')\<close>\<close>
  "remove_json_fences [] = []"
| "remove_json_fences (c # cs) =
     (if prefix (code_units ''```json'') (c # cs)
      then remove_json_fences (dropWhile space_unit (drop 6 cs))
      else c # remove_json_fences cs)"
  by pat_completeness auto
termination
  by (relation "measure length")
     (auto simp: less_Suc_eq_le intro: order_trans [OF length_dropWhile_le])

function remove_fences :: "js_string \<Rightarrow> js_string" where
  \<comment> \<open>\<^verbatim>\<open>s.replace(/```\s*/g, '')\<close>\<close>
  "remove_fences [] = []"
| "remove_fences (c # cs) =
     (if prefix (code_units ''```'') (c # cs)
      then remove_fences (dropWhile space_unit (drop 2 cs))
      else c # remove_fences cs)"
  by pat_completeness auto
termination
  by (relation "measure length")
     (auto simp: less_Suc_eq_le intro: order_trans [OF length_dropWhile_le])

definition match_object :: "js_string \<Rightarrow> js_string option" where
  \<comment> \<open>\<^verbatim>\<open>s.match(/\{[\s\S]*\}/)\<close>: from the first \<^verbatim>\<open>{\<close> to the last \<^verbatim>\<open>}\<close> after it\<close>
  "match_object s =
     (let from_open = dropWhile (\<lambda>c. c \<noteq> unit_of (CHR ''{'')) s
      in if unit_of (CHR ''}'') \<in> set from_open
         then Some (rev (dropWhile (\<lambda>c. c \<noteq> unit_of (CHR ''}'')) (rev from_open)))
         else None)"

definition before_closer :: "js_string \<Rightarrow> bool" where
  \<comment> \<open>the text matches \<^verbatim>\<open>\s*[}\]]\<close> at its start\<close>
  "before_closer cs =
     (case dropWhile space_unit cs of
        [] \<Rightarrow> False
      | d # _ \<Rightarrow> d = unit_of (CHR ''}'') \<or> d = unit_of (CHR '']''))"

fun fix_trailing_commas :: "js_string \<Rightarrow> js_string" where
  \<comment> \<open>\<^verbatim>\<open>s.replace(/,(\s*[}\]])/g, '$1')\<close>\<close>
  "fix_trailing_commas [] = []"
| "fix_trailing_commas (c # cs) =
     (if c = unit_of (CHR '','') \<and> before_closer cs then fix_trailing_commas cs
      else c # fix_trailing_commas cs)"

definition occurrences :: "code_unit \<Rightarrow> js_string \<Rightarrow> nat" where
  \<comment> \<open>\<^verbatim>\<open>(s.match(/c/g) || []).length\<close>\<close>
  "occurrences c s = length (filter (\<lambda>d. d = c) s)"

definition close_unclosed :: "js_string \<Rightarrow> js_string" where
  "close_unclosed cleanText =
     (let openBraces = occurrences (unit_of (CHR ''{'')) cleanText;
          closeBraces = occurrences (unit_of (CHR ''}'')) cleanText;
          openBrackets = occurrences (unit_of (CHR ''['')) cleanText;
          closeBrackets = occurrences (unit_of (CHR '']'')) cleanText;
          with_brackets =
            (if openBrackets > closeBrackets
             then cleanText @ replicate (openBrackets - closeBrackets) (unit_of (CHR '']''))
             else cleanText)
      in if openBraces > closeBraces
         then with_brackets @ replicate (openBraces - closeBraces) (unit_of (CHR ''}''))
         else with_brackets)"

record api_response =
  content_text :: js_string
  model :: string
  input_tokens :: nat
  output_tokens :: nat

definition respond :: "generation \<Rightarrow> string \<Rightarrow> js_string \<Rightarrow> api_response" where
  "respond g name cleanText =
     \<lparr> content_text = cleanText,
       model = name,
       input_tokens = (case promptTokenCount g of None \<Rightarrow> 0 | Some n \<Rightarrow> n),
       output_tokens = (case candidatesTokenCount g of None \<Rightarrow> 0 | Some n \<Rightarrow> n) \<rparr>"

definition invalid_json_message :: "string \<Rightarrow> string" where
  "invalid_json_message parseError =
     ''Invalid JSON response from Gemini. The response may be incomplete or malformed. Error: '' @
     parseError @ ''. Please try again.''"

text \<open>
  The cleanup and the repair of the handler, from the raw text of the winning generation
  on. \<open>parse\<close> is \<^verbatim>\<open>JSON.parse\<close>: only whether it throws, and with which message, is
  used.
\<close>

definition clean :: "js_string \<Rightarrow> js_string" where
  "clean raw =
     (let responseText = trim_text (remove_fences (remove_json_fences raw))
      in case match_object responseText of Some jsonMatch \<Rightarrow> jsonMatch | None \<Rightarrow> responseText)"

definition reconcile ::
  "(js_string \<Rightarrow> unit outcome) \<Rightarrow> generation \<Rightarrow> string \<Rightarrow> js_string \<Rightarrow> api_response outcome" where
  "reconcile parse g name raw =
     (let cleanText = clean raw
      in case parse cleanText of
           Returns testParse \<Rightarrow> Returns (respond g name cleanText)
         | Throws parseError \<Rightarrow>
             (let fixed = close_unclosed (fix_trailing_commas cleanText)
              in case parse fixed of
                   Returns fixedParse \<Rightarrow> Returns (respond g name fixed)
                 | Throws fixError \<Rightarrow> Throws (invalid_json_message parseError)))"

text \<open>
  For comparison with the match above, and no part of the handler: the span that the
  words "the first top-level \<^verbatim>\<open>{...}\<close> span" describe, from the first opening
  brace to the closing brace that brings the count of open braces back to zero.
\<close>

fun span_to_close :: "nat \<Rightarrow> js_string \<Rightarrow> js_string option" where
  "span_to_close depth [] = None"
| "span_to_close depth (c # cs) =
     (if c = unit_of (CHR ''{'') then map_option (Cons c) (span_to_close (Suc depth) cs)
      else if c = unit_of (CHR ''}'') then
        (if depth \<le> 1 then Some [c] else map_option (Cons c) (span_to_close (depth - 1) cs))
      else map_option (Cons c) (span_to_close depth cs))"

definition first_top_level_span :: "js_string \<Rightarrow> js_string option" where
  "first_top_level_span s = span_to_close 0 (dropWhile (\<lambda>c. c \<noteq> unit_of (CHR ''{'')) s)"

text \<open>
  The Gemini branch of the handler: it answers with a status and an error text, or with
  the report, or it throws, which the handler's \<^verbatim>\<open>catch\<close> turns into a 500 answer
  carrying the message.
\<close>

datatype reply = Status nat string | Report api_response

definition call_model ::
  "bool \<Rightarrow> (string \<Rightarrow> generation outcome) \<Rightarrow> (js_string \<Rightarrow> unit outcome) \<Rightarrow> string \<Rightarrow> reply outcome" where
  "call_model genAI generateContent parse requested =
     (if prefix ''gemini'' requested then
        if \<not> genAI
        then Returns (Status 500
               ''Gemini API key not configured. Please set GEMINI_API_KEY in .env file.'')
        else
          (let st = try_models generateContent (modelsToTry requested)
                      \<lparr> result = None,
                        modelName = (if requested \<noteq> [] then requested else ''gemini-2.0-flash''),
                        lastError = None \<rparr>
           in case result st of
                None \<Rightarrow> Throws (all_failed_message (lastError st))
              | Some g \<Rightarrow>
                  (case response_text g of
                     Throws message \<Rightarrow> Throws message
                   | Returns raw \<Rightarrow>
                       (case reconcile parse g (modelName st) raw of
                          Throws message \<Rightarrow> Throws message
                        | Returns r \<Rightarrow> Returns (Report r))))
      else Returns (Status 400 (''Unsupported model: '' @ requested @
             ''. Use 'gemini-2.0-flash' (recommended) or 'gemini-1.5-flash'' @ [CHR 0x27])))"

subsection \<open>The platform's JSON.parse\<close>

text \<open>
  \<^verbatim>\<open>JSON.parse\<close> is the platform's, not the repository's. The handler uses only
  whether it throws, so it is modelled as a recogniser of the JSON grammar of ECMA-404:
  a scanner that runs over the code units once and emits tokens, and a pushdown automaton
  over the tokens whose stack holds the open objects and arrays.
\<close>

datatype token =
  LBrace | RBrace | LBracket | RBracket | Colon | Comma | TString | TNumber | TLiteral

datatype num_state = NMinus | NZero | NInt | NDot | NFrac | NE | NESign | NExp

datatype lex_state =
  Idle | InString | Escape | Hex nat | InNumber num_state | InLiteral js_string

definition json_space :: "code_unit \<Rightarrow> bool" where
  "json_space c \<longleftrightarrow> c = 32 \<or> c = 9 \<or> c = 10 \<or> c = 13"

definition digit :: "code_unit \<Rightarrow> bool" where
  "digit c \<longleftrightarrow> c \<in> set (code_units ''0123456789'')"

definition hex_digit :: "code_unit \<Rightarrow> bool" where
  "hex_digit c \<longleftrightarrow> c \<in> set (code_units ''0123456789abcdefABCDEF'')"

definition exponent_mark :: "code_unit \<Rightarrow> bool" where
  "exponent_mark c \<longleftrightarrow> c = unit_of (CHR ''e'') \<or> c = unit_of (CHR ''E'')"

fun num_step :: "num_state \<Rightarrow> code_unit \<Rightarrow> num_state option" where
  "num_step NMinus c =
     (if c = unit_of (CHR ''0'') then Some NZero else if digit c then Some NInt else None)"
| "num_step NZero c =
     (if c = unit_of (CHR ''.'') then Some NDot else if exponent_mark c then Some NE else None)"
| "num_step NInt c =
     (if digit c then Some NInt else if c = unit_of (CHR ''.'') then Some NDot
      else if exponent_mark c then Some NE else None)"
| "num_step NDot c = (if digit c then Some NFrac else None)"
| "num_step NFrac c =
     (if digit c then Some NFrac else if exponent_mark c then Some NE else None)"
| "num_step NE c =
     (if c = unit_of (CHR ''+'') \<or> c = unit_of (CHR ''-'') then Some NESign
      else if digit c then Some NExp else None)"
| "num_step NESign c = (if digit c then Some NExp else None)"
| "num_step NExp c = (if digit c then Some NExp else None)"

definition complete_number :: "num_state \<Rightarrow> bool" where
  "complete_number ns \<longleftrightarrow> ns = NZero \<or> ns = NInt \<or> ns = NFrac \<or> ns = NExp"

definition idle_step :: "code_unit \<Rightarrow> (token list \<times> lex_state) option" where
  "idle_step c =
     (if json_space c then Some ([], Idle)
      else if c = unit_of (CHR ''{'') then Some ([LBrace], Idle)
      else if c = unit_of (CHR ''}'') then Some ([RBrace], Idle)
      else if c = unit_of (CHR ''['') then Some ([LBracket], Idle)
      else if c = unit_of (CHR '']'') then Some ([RBracket], Idle)
      else if c = unit_of (CHR '':'') then Some ([Colon], Idle)
      else if c = unit_of (CHR '','') then Some ([Comma], Idle)
      else if c = unit_of (CHR 0x22) then Some ([], InString)
      else if c = unit_of (CHR ''-'') then Some ([], InNumber NMinus)
      else if c = unit_of (CHR ''0'') then Some ([], InNumber NZero)
      else if digit c then Some ([], InNumber NInt)
      else if c = unit_of (CHR ''t'') then Some ([], InLiteral (code_units ''rue''))
      else if c = unit_of (CHR ''f'') then Some ([], InLiteral (code_units ''alse''))
      else if c = unit_of (CHR ''n'') then Some ([], InLiteral (code_units ''ull''))
      else None)"

fun lex_step :: "lex_state \<Rightarrow> code_unit \<Rightarrow> (token list \<times> lex_state) option" where
  "lex_step Idle c = idle_step c"
| "lex_step InString c =
     (if c = unit_of (CHR 0x22) then Some ([TString], Idle)
      else if c = unit_of (CHR 0x5C) then Some ([], Escape)
      else if c < 32 then None
      else Some ([], InString))"
| "lex_step Escape c =
     (if c = unit_of (CHR ''u'') then Some ([], Hex 4)
      else if c = unit_of (CHR 0x22) \<or> c = unit_of (CHR 0x5C) \<or> c \<in> set (code_units ''/bfnrt'')
      then Some ([], InString)
      else None)"
| "lex_step (Hex n) c =
     (if hex_digit c then Some ([], if n \<le> 1 then InString else Hex (n - 1)) else None)"
| "lex_step (InNumber ns) c =
     (case num_step ns c of
        Some ns' \<Rightarrow> Some ([], InNumber ns')
      | None \<Rightarrow>
          if complete_number ns
          then (case idle_step c of
                  Some (ts, st) \<Rightarrow> Some (TNumber # ts, st)
                | None \<Rightarrow> None)
          else None)"
| "lex_step (InLiteral []) c = None"
| "lex_step (InLiteral (x # xs)) c =
     (if c = x then (if xs = [] then Some ([TLiteral], Idle) else Some ([], InLiteral xs))
      else None)"

fun scan :: "lex_state \<Rightarrow> js_string \<Rightarrow> token list option" where
  "scan st [] =
     (case st of
        Idle \<Rightarrow> Some []
      | InNumber ns \<Rightarrow> if complete_number ns then Some [TNumber] else None
      | _ \<Rightarrow> None)"
| "scan st (c # cs) =
     (case lex_step st c of
        None \<Rightarrow> None
      | Some (ts, st') \<Rightarrow> map_option (\<lambda>rest. ts @ rest) (scan st' cs))"

datatype container = Object | Array

datatype expect =
  Value           \<comment> \<open>a value: at the start, after a colon, after a comma in an array\<close>
| FirstElement    \<comment> \<open>after \<^verbatim>\<open>[\<close>: a value or \<^verbatim>\<open>]\<close>\<close>
| FirstKey        \<comment> \<open>after \<^verbatim>\<open>{\<close>: a key or \<^verbatim>\<open>}\<close>\<close>
| Key             \<comment> \<open>after a comma in an object\<close>
| AfterKey        \<comment> \<open>a colon\<close>
| AfterValue      \<comment> \<open>a comma, the closer of the open container, or the end\<close>

definition begin_value :: "token \<Rightarrow> container list \<Rightarrow> (container list \<times> expect) option" where
  "begin_value t stack =
     (if t = LBrace then Some (Object # stack, FirstKey)
      else if t = LBracket then Some (Array # stack, FirstElement)
      else if t = TString \<or> t = TNumber \<or> t = TLiteral then Some (stack, AfterValue)
      else None)"

fun parse_step :: "token \<Rightarrow> container list \<times> expect \<Rightarrow> (container list \<times> expect) option" where
  "parse_step t (stack, Value) = begin_value t stack"
| "parse_step t (stack, FirstElement) =
     (if t = RBracket then (case stack of Array # below \<Rightarrow> Some (below, AfterValue) | _ \<Rightarrow> None) else begin_value t stack)"
| "parse_step t (stack, FirstKey) =
     (if t = RBrace then (case stack of Object # below \<Rightarrow> Some (below, AfterValue) | _ \<Rightarrow> None)
      else if t = TString then Some (stack, AfterKey) else None)"
| "parse_step t (stack, Key) = (if t = TString then Some (stack, AfterKey) else None)"
| "parse_step t (stack, AfterKey) = (if t = Colon then Some (stack, Value) else None)"
| "parse_step t (stack, AfterValue) =
     (case stack of
        [] \<Rightarrow> None
      | Object # below \<Rightarrow>
          if t = Comma then Some (stack, Key)
          else if t = RBrace then Some (below, AfterValue) else None
      | Array # below \<Rightarrow>
          if t = Comma then Some (stack, Value)
          else if t = RBracket then Some (below, AfterValue) else None)"

fun run_parser :: "token list \<Rightarrow> container list \<times> expect \<Rightarrow> bool" where
  "run_parser [] st = (st = ([], AfterValue))"
| "run_parser (t # ts) st =
     (case parse_step t st of None \<Rightarrow> False | Some st' \<Rightarrow> run_parser ts st')"

definition json_text :: "js_string \<Rightarrow> bool" where
  "json_text s = (case scan Idle s of None \<Rightarrow> False | Some ts \<Rightarrow> run_parser ts ([], Value))"

definition JSON_parse :: "(js_string \<Rightarrow> string) \<Rightarrow> js_string \<Rightarrow> unit outcome" where
  \<comment> \<open>\<open>syntax_error\<close>: the message of the engine's SyntaxError for a text\<close>
  "JSON_parse syntax_error s = (if json_text s then Returns () else Throws (syntax_error s))"

subsection \<open>Example inputs\<close>

text \<open>
  A capture of a small shop page: every browser call succeeds but the mobile capture,
  whose context is destroyed; the reduced extraction of its \<^verbatim>\<open>catch\<close> succeeds.
  The plain GET of the same address is answered 404. No sum of the example is rounded.
\<close>

definition example_world :: "unit world" where
  "example_world =
     \<lparr> puppeteer = True,
       launch = Returns (),
       open_page = Returns (),
       goto_networkidle0 = Returns (),
       goto_domcontentloaded = Returns (),
       scroll = Returns (),
       page_content = Returns (''<html><head><title>Shop</title></head><body>Buy</body></html>'', ''Shop''),
       css_probe = Returns ([], ()),
       reflow_probe = Returns \<lparr> body_scrollWidth = 1024, window_innerWidth = 320,
                                 documentElement_clientWidth = 320 \<rparr>,
       zoom_probe = Returns \<lparr> original_scrollWidth = 1920, original_scrollHeight = 3000,
                               zoomed_scrollWidth = 3840, zoomed_scrollHeight = 6000,
                               zoom_innerWidth = 1920, zoom_innerHeight = 1080 \<rparr>,
       reset_viewport = Returns (),
       mobile_probe = Throws ''Execution context was destroyed'',
       basic_probe = Returns \<lparr> bp_innerWidth = 390, bp_innerHeight = 844,
                                bp_viewportMeta = None, bp_count = 3,
                                bp_bodyFontSize = Some 12, bp_bodyLineHeight = None,
                                bp_innerText = ''Buy'', bp_outerHTML = ''<html></html>'' \<rparr>,
       close = Returns (),
       close_in_catch = Returns (),
       fetch = Returns \<lparr> status = 404, statusText = ''Not Found'',
                          text_body = Returns ''<html><body>missing</body></html>'' \<rparr>,
       cheerio = (\<lambda>doc. \<lparr> sel_title = [], sel_metaDescription = None, sel_h1 = [], sel_h2 = [],
                            sel_h3 = [], sel_links = [], sel_images = [], sel_forms = 0,
                            sel_buttons = [], sel_bodyText = doc \<rparr>),
       plus_double = (\<lambda>x y. x + y),
       now = ''2024-05-01T10:00:00.000Z'' \<rparr>"

text \<open>
  Three generation backends: one on which every model fails, the first two with reasons
  of their own; one that fails with other reasons but the same last one; one on which
  every model answers with the empty object.
\<close>

definition all_backends_fail :: "string \<Rightarrow> generation outcome" where
  "all_backends_fail tryModel =
     (if tryModel = ''gemini-3-pro-preview'' then Throws ''quota exceeded''
      else if tryModel = ''gemini-2.5-pro'' then Throws ''billing not enabled''
      else Throws ''model overloaded'')"

definition other_reasons :: "string \<Rightarrow> generation outcome" where
  "other_reasons tryModel =
     (if tryModel = ''gemini-2.0-flash'' then Throws ''model overloaded''
      else Throws ''permission denied'')"

definition every_backend_answers :: "string \<Rightarrow> generation outcome" where
  "every_backend_answers tryModel =
     Returns \<lparr> response_text = Returns (code_units ''{}''), promptTokenCount = Some 10,
               candidatesTokenCount = Some 2 \<rparr>"

text \<open>The message of the engine's SyntaxError, here the same for every text.\<close>

definition engine_message :: "js_string \<Rightarrow> string" where
  "engine_message s = ''Unexpected end of JSON input''"

text \<open>
  Three raw model responses: a fenced reply with a trailing comma and an unclosed object;
  a reply cut off inside an array, after a string value that holds a bracket; and an
  object followed by a remark that holds a closing brace.
\<close>

definition fenced_reply :: js_string where
  \<open>fenced_reply =
     code_units (''```json'' @ [CHR 0x0A] @ ''{"categories":[{"title":"A","items":[],}]'' @
                 [CHR 0x0A] @ ''```'')\<close>

definition truncated_reply :: js_string where
  \<open>truncated_reply = code_units ''{"a":"[","b":[1''\<close>

definition reply_with_remark :: js_string where
  \<open>reply_with_remark = code_units ''{"a":1} note: a }''\<close>

section \<open>Properties\<close>

subsection \<open>What a returned snapshot is made of\<close>

lemma render_Returns:
  assumes "render w u = Returns s"
  shows "\<exists>doc page_title. page_content w = Returns (doc, page_title) \<and>
           s = \<lparr> url = u, html = substring0 200000 doc,
                 structuredData = structured page_title (cheerio w doc),
                 cssAnalysis = css_stage (plus_double w) (css_probe w),
                 reflowTest = reflow_stage (reflow_probe w),
                 zoomTest = zoom_stage (zoom_probe w),
                 mobileData = mobile_stage (mobile_probe w) (basic_probe w),
                 fetchedAt = now w \<rparr>"
  using assms by (auto simp: render_def Let_def split: outcome.splits prod.splits)

lemma simple_Returns:
  assumes "fetchWebsiteSimple w u = Returns s"
  shows "\<exists>r doc. fetch w = Returns r \<and> ok r \<and> text_body r = Returns doc \<and>
           s = \<lparr> url = u, html = substring0 200000 doc,
                 structuredData = structured [] (cheerio w doc),
                 cssAnalysis = Absent, reflowTest = Absent, zoomTest = Absent,
                 mobileData = Null, fetchedAt = now w \<rparr>"
  using assms by (auto simp: fetchWebsiteSimple_def split: outcome.splits if_splits)

lemma capture_Returns:
  assumes "fst (fetchWebsiteContent w u) = Returns s"
  shows "render w u = Returns s \<or> fetchWebsiteSimple w u = Returns s"
  using assms by (auto simp: fetchWebsiteContent_def split: outcome.splits if_splits)

subsection \<open>Viewport stress tests\<close>

text \<open>
  C2. The reflow verdict is a pass exactly when the page at 320px shows no horizontal
  overflow beyond the zero-width-scrollbar tolerance: it fails exactly when the body's
  scroll width exceeds the viewport width and the scrollbar takes a non-zero width
  (the viewport width minus the document element's client width). Overflow with a
  scrollbar of non-zero width always fails; overflow with a scrollbar of zero width is
  within the tolerance and passes.
\<close>

theorem reflow_verdict:
  "(meetsReflowRequirement (reflow_evaluate p) \<longleftrightarrow>
      \<not> (body_scrollWidth p > window_innerWidth p
         \<and> window_innerWidth p - documentElement_clientWidth p \<noteq> 0))
   \<and> (body_scrollWidth p > window_innerWidth p
        \<and> window_innerWidth p \<noteq> documentElement_clientWidth p
      \<longrightarrow> \<not> meetsReflowRequirement (reflow_evaluate p))
   \<and> (hasHorizontalScroll (reflow_evaluate p) \<longleftrightarrow> body_scrollWidth p > window_innerWidth p)
   \<and> scrollbarWidth (reflow_evaluate p) = window_innerWidth p - documentElement_clientWidth p"
  by (auto simp: reflow_evaluate_def Let_def)

theorem reflow_verdict_witness:
  "(1024::int) > 320 \<and> (320::int) \<noteq> 305
   \<and> \<not> meetsReflowRequirement
       (reflow_evaluate \<lparr> body_scrollWidth = 1024, window_innerWidth = 320,
                          documentElement_clientWidth = 305 \<rparr>)
   \<and> meetsReflowRequirement
       (reflow_evaluate \<lparr> body_scrollWidth = 320, window_innerWidth = 320,
                          documentElement_clientWidth = 305 \<rparr>)
   \<and> meetsReflowRequirement
       (reflow_evaluate \<lparr> body_scrollWidth = 1024, window_innerWidth = 320,
                          documentElement_clientWidth = 320 \<rparr>)"
  using reflow_verdict [of "\<lparr> body_scrollWidth = 1024, window_innerWidth = 320,
                             documentElement_clientWidth = 305 \<rparr>"]
        reflow_verdict [of "\<lparr> body_scrollWidth = 320, window_innerWidth = 320,
                             documentElement_clientWidth = 305 \<rparr>"]
        reflow_verdict [of "\<lparr> body_scrollWidth = 1024, window_innerWidth = 320,
                             documentElement_clientWidth = 320 \<rparr>"]
  by simp

text \<open>
  C9. The zoom verdict is \<open>True\<close> for every measurement, overflowing or not: the
  function evaluated in the page, the stage, and every snapshot a capture returns never
  hold \<open>meetsZoomRequirement = False\<close>. The raw measurements before and after the zoom
  and the two overflow flags are returned beside it.
\<close>

theorem zoom_verdict:
  "meetsZoomRequirement (zoom_evaluate p)
   \<and> (\<forall>z. zoom_stage r = Present z \<longrightarrow> meetsZoomRequirement z)
   \<and> (\<forall>s z. fst (fetchWebsiteContent w u) = Returns s \<longrightarrow> zoomTest s = Present z
        \<longrightarrow> meetsZoomRequirement z)
   \<and> zoom_hasHorizontalScroll (zoom_evaluate p) = (zoomed_scrollWidth p > zoom_innerWidth p)
   \<and> zoom_hasVerticalScroll (zoom_evaluate p) = (zoomed_scrollHeight p > zoom_innerHeight p)
   \<and> originalWidth (zoom_evaluate p) = original_scrollWidth p
   \<and> originalHeight (zoom_evaluate p) = original_scrollHeight p
   \<and> zoomedWidth (zoom_evaluate p) = zoomed_scrollWidth p
   \<and> zoomedHeight (zoom_evaluate p) = zoomed_scrollHeight p"
proof -
  have eval: "meetsZoomRequirement (zoom_evaluate q)" for q
    by (simp add: zoom_evaluate_def Let_def)
  have stage: "meetsZoomRequirement z" if "zoom_stage r' = Present z" for r' z
    using that eval by (auto simp: zoom_stage_def split: outcome.splits)
  have capture: "meetsZoomRequirement z"
    if "fst (fetchWebsiteContent w u) = Returns s" and "zoomTest s = Present z" for s z
  proof -
    from capture_Returns [OF that(1)] show ?thesis
    proof
      assume "render w u = Returns s"
      from render_Returns [OF this] that(2) have "zoom_stage (zoom_probe w) = Present z"
        by auto
      then show ?thesis by (rule stage)
    next
      assume "fetchWebsiteSimple w u = Returns s"
      from simple_Returns [OF this] that(2) show ?thesis by auto
    qed
  qed
  show ?thesis
    using eval stage capture by (auto simp: zoom_evaluate_def Let_def)
qed

theorem zoom_verdict_witness:
  "zoom_hasHorizontalScroll
       (zoom_evaluate \<lparr> original_scrollWidth = 1920, original_scrollHeight = 3000,
                        zoomed_scrollWidth = 3840, zoomed_scrollHeight = 6000,
                        zoom_innerWidth = 1920, zoom_innerHeight = 1080 \<rparr>)
   \<and> meetsZoomRequirement
       (zoom_evaluate \<lparr> original_scrollWidth = 1920, original_scrollHeight = 3000,
                        zoomed_scrollWidth = 3840, zoomed_scrollHeight = 6000,
                        zoom_innerWidth = 1920, zoom_innerHeight = 1080 \<rparr>)
   \<and> (\<exists>s z. fst (fetchWebsiteContent example_world ''https://shop.example/'') = Returns s
          \<and> zoomTest s = Present z \<and> zoom_hasHorizontalScroll z \<and> meetsZoomRequirement z)"
proof -
  let ?p = "\<lparr> original_scrollWidth = 1920, original_scrollHeight = 3000,
              zoomed_scrollWidth = 3840, zoomed_scrollHeight = 6000,
              zoom_innerWidth = 1920, zoom_innerHeight = 1080 \<rparr>"
  note v = zoom_verdict [of ?p "zoom_probe example_world" example_world "''https://shop.example/''"]
  obtain s where s: "fst (fetchWebsiteContent example_world ''https://shop.example/'') = Returns s"
    by (simp add: fetchWebsiteContent_def render_def example_world_def Let_def)
  from capture_Returns [OF s] have z: "zoomTest s = Present (zoom_evaluate ?p)"
    by (auto dest!: render_Returns simple_Returns
             simp: example_world_def zoom_stage_def ok_def)
  from v s z show ?thesis by auto
qed

subsection \<open>Snapshot capture\<close>

lemma render_Throws_iff:
  "(\<exists>m. render w u = Throws m) \<longleftrightarrow>
     (\<exists>m. open_page w = Throws m) \<or> (\<exists>m. scroll w = Throws m) \<or>
     (\<exists>m. page_content w = Throws m) \<or> (\<exists>m. reset_viewport w = Throws m) \<or>
     (\<exists>m. close w = Throws m)"
  by (auto simp: render_def Let_def split: outcome.splits prod.splits)

lemma simple_Throws_iff:
  "(\<exists>m. fetchWebsiteSimple w u = Throws m) \<longleftrightarrow>
     (\<exists>m. fetch w = Throws m) \<or>
     (\<exists>r. fetch w = Returns r \<and> (\<not> ok r \<or> (\<exists>m. text_body r = Throws m)))"
  by (auto simp: fetchWebsiteSimple_def split: outcome.splits)

lemma simple_Throws_prefix:
  "fetchWebsiteSimple w u = Throws m \<Longrightarrow> prefix ''Simple fetch failed: '' m"
  by (auto simp: fetchWebsiteSimple_def prefix_def split: outcome.splits if_splits)

lemma capture_Throws:
  "fst (fetchWebsiteContent w u) = Throws m \<longleftrightarrow>
     (\<not> puppeteer w \<or> (\<exists>e. launch w = Throws e) \<or> (\<exists>e. render w u = Throws e)) \<and>
     fetchWebsiteSimple w u = Throws m"
  by (auto simp: fetchWebsiteContent_def split: outcome.splits)

lemma decimal_404: "decimal 404 = ''404''"
  by code_simp

text \<open>
  C1, as the code has it. A capture throws exactly when the rendering path is not
  available or fails (no puppeteer, or a rejection of the launch, of opening the page, of
  the auto-scroll, of reading the content, of the viewport reset or of closing the
  browser) and the lightweight fetcher fails too: on a transport error, on a response
  whose status is not 2xx, or on reading the body. The error is the lightweight
  fetcher's. A 2xx response with a readable body always gives a snapshot, and so does a
  rendering path that completes; neither navigation attempt nor the style, reflow, zoom
  and mobile stages can make the capture throw.
\<close>

theorem capture_throws_iff:
  "((\<exists>m. fst (fetchWebsiteContent w u) = Throws m) \<longleftrightarrow>
      (\<not> puppeteer w \<or> (\<exists>e. launch w = Throws e) \<or> (\<exists>e. open_page w = Throws e) \<or>
       (\<exists>e. scroll w = Throws e) \<or> (\<exists>e. page_content w = Throws e) \<or>
       (\<exists>e. reset_viewport w = Throws e) \<or> (\<exists>e. close w = Throws e))
      \<and> ((\<exists>e. fetch w = Throws e) \<or>
         (\<exists>r. fetch w = Returns r \<and> (\<not> ok r \<or> (\<exists>e. text_body r = Throws e)))))
   \<and> (fst (fetchWebsiteContent w u) = Throws m \<longrightarrow>
        fetchWebsiteSimple w u = Throws m \<and> prefix ''Simple fetch failed: '' m)
   \<and> (fetch w = Returns r \<and> ok r \<and> text_body r = Returns doc \<longrightarrow>
        (\<exists>s. fst (fetchWebsiteContent w u) = Returns s))
   \<and> (puppeteer w \<and> launch w = Returns () \<and> render w u = Returns s \<longrightarrow>
        fetchWebsiteContent w u = (Returns s, Closed))
   \<and> fetchWebsiteContent (w \<lparr> goto_networkidle0 := nav, goto_domcontentloaded := nav' \<rparr>) u =
       fetchWebsiteContent w u"
proof (intro conjI)
  have "render (w \<lparr> goto_networkidle0 := nav, goto_domcontentloaded := nav' \<rparr>) u = render w u"
    by (simp add: render_def Let_def split: outcome.splits prod.splits)
  moreover have "fetchWebsiteSimple (w \<lparr> goto_networkidle0 := nav, goto_domcontentloaded := nav' \<rparr>) u
      = fetchWebsiteSimple w u"
    by (simp add: fetchWebsiteSimple_def split: outcome.splits)
  ultimately show
    "fetchWebsiteContent (w \<lparr> goto_networkidle0 := nav, goto_domcontentloaded := nav' \<rparr>) u =
       fetchWebsiteContent w u"
    by (simp add: fetchWebsiteContent_def split: outcome.splits)
next
  show "(\<exists>m. fst (fetchWebsiteContent w u) = Throws m) \<longleftrightarrow>
      (\<not> puppeteer w \<or> (\<exists>e. launch w = Throws e) \<or> (\<exists>e. open_page w = Throws e) \<or>
       (\<exists>e. scroll w = Throws e) \<or> (\<exists>e. page_content w = Throws e) \<or>
       (\<exists>e. reset_viewport w = Throws e) \<or> (\<exists>e. close w = Throws e))
      \<and> ((\<exists>e. fetch w = Throws e) \<or>
         (\<exists>r. fetch w = Returns r \<and> (\<not> ok r \<or> (\<exists>e. text_body r = Throws e))))"
    unfolding capture_Throws ex_simps
    unfolding render_Throws_iff simple_Throws_iff by blast
next
  show "fst (fetchWebsiteContent w u) = Throws m \<longrightarrow>
        fetchWebsiteSimple w u = Throws m \<and> prefix ''Simple fetch failed: '' m"
    using simple_Throws_prefix [of w u m] by (simp add: capture_Throws)
next
  show "fetch w = Returns r \<and> ok r \<and> text_body r = Returns doc \<longrightarrow>
        (\<exists>s. fst (fetchWebsiteContent w u) = Returns s)"
    by (auto simp: fetchWebsiteContent_def fetchWebsiteSimple_def split: outcome.splits)
next
  show "puppeteer w \<and> launch w = Returns () \<and> render w u = Returns s \<longrightarrow>
        fetchWebsiteContent w u = (Returns s, Closed)"
    by (simp add: fetchWebsiteContent_def)
qed

theorem capture_throws_iff_witness:
  "fetch (example_world \<lparr> launch := Throws ''Failed to launch the browser process'' \<rparr>)
     = Returns \<lparr> status = 404, statusText = ''Not Found'',
                 text_body = Returns ''<html><body>missing</body></html>'' \<rparr>
   \<and> \<not> ok \<lparr> status = 404, statusText = ''Not Found'',
              text_body = Returns ''<html><body>missing</body></html>'' \<rparr>
   \<and> (\<exists>m. fst (fetchWebsiteContent
                 (example_world \<lparr> launch := Throws ''Failed to launch the browser process'' \<rparr>)
                 ''https://shop.example/gone'') = Throws m)
   \<and> (\<exists>s. fst (fetchWebsiteContent example_world ''https://shop.example/'') = Returns s)"
proof -
  let ?w = "example_world \<lparr> launch := Throws ''Failed to launch the browser process'' \<rparr>"
  let ?r = "\<lparr> status = 404, statusText = ''Not Found'',
              text_body = Returns ''<html><body>missing</body></html>'' \<rparr>"
  have f: "fetch ?w = Returns ?r" and l: "launch ?w = Throws ''Failed to launch the browser process''"
    by (simp_all add: example_world_def)
  have nok: "\<not> ok ?r" by (simp add: ok_def)
  have r: "\<exists>s. render example_world ''https://shop.example/'' = Returns s"
    by (simp add: render_def example_world_def Let_def)
  have p: "puppeteer example_world" "launch example_world = Returns ()"
    by (simp_all add: example_world_def)
  from capture_throws_iff [of ?w "''https://shop.example/gone''"] f l nok
  have "\<exists>m. fst (fetchWebsiteContent ?w ''https://shop.example/gone'') = Throws m"
    by blast
  moreover from r p capture_throws_iff [of example_world "''https://shop.example/''"]
  have "\<exists>s. fst (fetchWebsiteContent example_world ''https://shop.example/'') = Returns s"
    by (metis fst_conv)
  ultimately show ?thesis using f nok by simp
qed

text \<open>
  C1, as stated, fails: without puppeteer, a page that answers the plain GET with
  status 404 is reachable, and the capture throws.
\<close>

theorem capture_reachable_counterexample:
  "(\<exists>r. fetch (example_world \<lparr> puppeteer := False \<rparr>) = Returns r \<and> status r = 404)
   \<and> fetchWebsiteContent (example_world \<lparr> puppeteer := False \<rparr>) ''https://shop.example/gone''
       = (Throws ''Simple fetch failed: HTTP 404: Not Found'', NotLaunched)"
  by (simp add: example_world_def fetchWebsiteContent_def fetchWebsiteSimple_def ok_def decimal_404)

text \<open>
  C7, as the code has it. When the mobile capture throws, with whatever error, and the
  rest of the rendering path goes through, the capture returns the snapshot with the
  desktop structured data, the style analysis, the reflow and zoom results untouched, and
  the browser is closed. The mobile data is the reduced extraction when that succeeds,
  and \<^verbatim>\<open>null\<close> when the reduced extraction throws too. The reduced extraction holds
  the viewport facts, the count of touch targets with no compliant ones, no
  non-compliant ones and no details, the body's typography with the minimum reported
  as met, at most 10000 characters of the page's text and 50000 of its HTML, fixed empty
  spacing, media-query and structure facts, and no style analysis.
\<close>

theorem mobile_failure_is_contained:
  assumes "puppeteer w" and "launch w = Returns ()" and "open_page w = Returns ()"
    and "scroll w = Returns ()" and "page_content w = Returns (doc, page_title)"
    and "reset_viewport w = Returns ()" and "close w = Returns ()"
    and "mobile_probe w = Throws mobileError"
  shows "fetchWebsiteContent w u =
           (Returns \<lparr> url = u, html = substring0 200000 doc,
                      structuredData = structured page_title (cheerio w doc),
                      cssAnalysis = css_stage (plus_double w) (css_probe w),
                      reflowTest = reflow_stage (reflow_probe w),
                      zoomTest = zoom_stage (zoom_probe w),
                      mobileData = (case basic_probe w of
                                      Returns b \<Rightarrow> Present (basic_evaluate b)
                                    | Throws fallbackError \<Rightarrow> Null),
                      fetchedAt = now w \<rparr>,
            Closed)
         \<and> (\<forall>b. (basic_evaluate b :: 'j mobile_data) =
                \<lparr> viewport =
                    \<lparr> vp_width = bp_innerWidth b, vp_height = bp_innerHeight b,
                      metaTag = (case bp_viewportMeta b of
                                   Some (Some content) \<Rightarrow> if content = [] then None else Some content
                                 | _ \<Rightarrow> None),
                      hasViewportMeta = (bp_viewportMeta b \<noteq> None) \<rparr>,
                  touchTargets =
                    \<lparr> total_count = bp_count b, compliant = 0, nonCompliant = [],
                      details = Absent \<rparr>,
                  spacing_issues = [],
                  hasMobileMediaQueries = False,
                  breakpoints = [],
                  mobile_typography =
                    \<lparr> bodyFontSize = or_default (bp_bodyFontSize b) 16,
                      bodyLineHeight = or_default (bp_bodyLineHeight b) (3 / 2),
                      meetsMinimum = True \<rparr>,
                  mobile_textContent = take 10000 (trim (collapse_space (bp_innerText b))),
                  mobile_cssAnalysis = Absent,
                  mobile_structuredData =
                    \<lparr> ms_h1 = [], ms_h2 = [], ms_h3 = [], ms_buttons = [], ms_links = [],
                      ms_forms = 0 \<rparr>,
                  mobile_html = take 50000 (bp_outerHTML b) \<rparr>)"
  using assms
  by (simp add: fetchWebsiteContent_def render_def mobile_stage_def basic_evaluate_def Let_def
        substring0_def)

theorem mobile_failure_is_contained_witness:
  "mobile_probe example_world = Throws ''Execution context was destroyed''
   \<and> snd (fetchWebsiteContent example_world ''https://shop.example/'') = Closed
   \<and> (\<exists>s m. fst (fetchWebsiteContent example_world ''https://shop.example/'') = Returns s
          \<and> title (structuredData s) = ''Shop''
          \<and> cssAnalysis s = Present \<lparr> css_targetSizes = [], css_other = () \<rparr>
          \<and> mobileData s = Present m
          \<and> total_count (touchTargets m) = 3 \<and> mobile_cssAnalysis m = Absent)
   \<and> snd (fetchWebsiteContent (example_world \<lparr> basic_probe := Throws ''Target closed'' \<rparr>)
            ''https://shop.example/'') = Closed
   \<and> (\<exists>s. fst (fetchWebsiteContent (example_world \<lparr> basic_probe := Throws ''Target closed'' \<rparr>)
                 ''https://shop.example/'') = Returns s
          \<and> title (structuredData s) = ''Shop''
          \<and> mobileData s = Null)"
proof -
  let ?w = "example_world \<lparr> basic_probe := Throws ''Target closed'' \<rparr>"
  let ?doc = "''<html><head><title>Shop</title></head><body>Buy</body></html>''"
  have a: "puppeteer example_world" "launch example_world = Returns ()"
    "open_page example_world = Returns ()" "scroll example_world = Returns ()"
    "page_content example_world = Returns (?doc, ''Shop'')"
    "reset_viewport example_world = Returns ()" "close example_world = Returns ()"
    "mobile_probe example_world = Throws ''Execution context was destroyed''"
    by (simp_all add: example_world_def)
  have b: "puppeteer ?w" "launch ?w = Returns ()" "open_page ?w = Returns ()"
    "scroll ?w = Returns ()" "page_content ?w = Returns (?doc, ''Shop'')"
    "reset_viewport ?w = Returns ()" "close ?w = Returns ()"
    "mobile_probe ?w = Throws ''Execution context was destroyed''"
    by (simp_all add: example_world_def)
  have c: "css_probe example_world = Returns ([], ())"
    "basic_probe example_world =
       Returns \<lparr> bp_innerWidth = 390, bp_innerHeight = 844, bp_viewportMeta = None,
                 bp_count = 3, bp_bodyFontSize = Some 12, bp_bodyLineHeight = None,
                 bp_innerText = ''Buy'', bp_outerHTML = ''<html></html>'' \<rparr>"
    "basic_probe ?w = Throws ''Target closed''"
    by (simp_all add: example_world_def)
  note one = mobile_failure_is_contained [OF a, of "''https://shop.example/''", THEN conjunct1]
  note two = mobile_failure_is_contained [OF b, of "''https://shop.example/''", THEN conjunct1]
  have "snd (fetchWebsiteContent example_world ''https://shop.example/'') = Closed
     \<and> (\<exists>s m. fst (fetchWebsiteContent example_world ''https://shop.example/'') = Returns s
          \<and> title (structuredData s) = ''Shop''
          \<and> cssAnalysis s = Present \<lparr> css_targetSizes = [], css_other = () \<rparr>
          \<and> mobileData s = Present m
          \<and> total_count (touchTargets m) = 3 \<and> mobile_cssAnalysis m = Absent)"
    by (simp add: one c structured_def css_stage_def targetSizes_def basic_evaluate_def)
  moreover have
    "snd (fetchWebsiteContent ?w ''https://shop.example/'') = Closed
     \<and> (\<exists>s. fst (fetchWebsiteContent ?w ''https://shop.example/'') = Returns s
          \<and> title (structuredData s) = ''Shop'' \<and> mobileData s = Null)"
    by (simp add: two c structured_def)
  ultimately show ?thesis using a(8) by simp
qed

lemma shop_text: "trim (collapse_space ''Buy'') = ''Buy''"
  by code_simp

text \<open>
  C7, as stated, fails: the reduced extraction of the example capture holds more than
  viewport facts and touch-target counts. It carries the body's typography (a font size
  of 12 read from the computed style, with the minimum of 16 reported as met), the
  page's text and its HTML.
\<close>

theorem reduced_extraction_counterexample:
  "\<exists>s m. fst (fetchWebsiteContent example_world ''https://shop.example/'') = Returns s
         \<and> mobileData s = Present m
         \<and> mobile_typography m = \<lparr> bodyFontSize = 12, bodyLineHeight = 3 / 2, meetsMinimum = True \<rparr>
         \<and> mobile_textContent m = ''Buy''
         \<and> mobile_html m = ''<html></html>''"
  by (simp add: fetchWebsiteContent_def render_def example_world_def Let_def mobile_stage_def)
     (simp add: basic_evaluate_def or_default_def substring0_def shop_text
        del: collapse_space.simps)

lemma fully_populated_mobile_evaluate: "fully_populated (mobile_evaluate p)"
  by (simp add: fully_populated_def mobile_evaluate_def Let_def)

lemma not_fully_populated_basic_evaluate: "\<not> fully_populated (basic_evaluate b)"
  by (simp add: fully_populated_def basic_evaluate_def)

text \<open>
  C6, as the code has it. In a returned snapshot the style analysis, the reflow test and
  the zoom test are each absent, \<^verbatim>\<open>null\<close>, or the whole result of their probe. The
  mobile data is \<^verbatim>\<open>null\<close>, or the full extraction, or the reduced extraction of the
  fallback, which is not fully populated. A snapshot of the lightweight fetcher has no
  style analysis, reflow test or zoom test, \<^verbatim>\<open>null\<close> mobile data, and the structured
  data of the fetched body, with a non-empty title.
\<close>

theorem optional_fields:
  "(fst (fetchWebsiteContent w u) = Returns s \<longrightarrow>
      (cssAnalysis s = Absent \<or> cssAnalysis s = Null \<or>
       (\<exists>els other. css_probe w = Returns (els, other) \<and>
          cssAnalysis s = Present \<lparr> css_targetSizes = targetSizes (plus_double w) els, css_other = other \<rparr>))
    \<and> (reflowTest s = Absent \<or> reflowTest s = Null \<or>
       (\<exists>p. reflow_probe w = Returns p \<and> reflowTest s = Present (reflow_evaluate p)))
    \<and> (zoomTest s = Absent \<or> zoomTest s = Null \<or>
       (\<exists>p. zoom_probe w = Returns p \<and> zoomTest s = Present (zoom_evaluate p)))
    \<and> (mobileData s = Null \<or>
       (\<exists>p. mobile_probe w = Returns p \<and> mobileData s = Present (mobile_evaluate p)
            \<and> fully_populated (mobile_evaluate p)) \<or>
       (\<exists>e b. mobile_probe w = Throws e \<and> basic_probe w = Returns b
            \<and> mobileData s = Present (basic_evaluate b)
            \<and> \<not> fully_populated (basic_evaluate b :: 'j mobile_data))))
   \<and> (fetchWebsiteSimple w u = Returns s' \<longrightarrow>
        cssAnalysis s' = Absent \<and> reflowTest s' = Absent \<and> zoomTest s' = Absent
        \<and> mobileData s' = Null
        \<and> (\<exists>r doc. fetch w = Returns r \<and> text_body r = Returns doc
              \<and> structuredData s' = structured [] (cheerio w doc))
        \<and> title (structuredData s') \<noteq> [])"
proof (intro conjI impI)
  assume "fetchWebsiteSimple w u = Returns s'"
  from simple_Returns [OF this] obtain r doc where
    f: "fetch w = Returns r" "text_body r = Returns doc" and
    s': "s' = \<lparr> url = u, html = substring0 200000 doc,
                structuredData = structured [] (cheerio w doc),
                cssAnalysis = Absent, reflowTest = Absent, zoomTest = Absent,
                mobileData = Null, fetchedAt = now w \<rparr>"
    by blast
  from s' show "cssAnalysis s' = Absent" "reflowTest s' = Absent" "zoomTest s' = Absent"
    "mobileData s' = Null" by simp_all
  from f s' show "\<exists>r doc. fetch w = Returns r \<and> text_body r = Returns doc
              \<and> structuredData s' = structured [] (cheerio w doc)" by auto
  from s' show "title (structuredData s') \<noteq> []" by (simp add: structured_def)
next
  assume c: "fst (fetchWebsiteContent w u) = Returns s"
  have fields:
    "(cssAnalysis s = Absent \<and> reflowTest s = Absent \<and> zoomTest s = Absent \<and> mobileData s = Null)
     \<or> (cssAnalysis s = css_stage (plus_double w) (css_probe w) \<and> reflowTest s = reflow_stage (reflow_probe w)
        \<and> zoomTest s = zoom_stage (zoom_probe w)
        \<and> mobileData s = mobile_stage (mobile_probe w) (basic_probe w))"
    using capture_Returns [OF c] by (auto dest!: render_Returns simple_Returns)
  then show "cssAnalysis s = Absent \<or> cssAnalysis s = Null \<or>
       (\<exists>els other. css_probe w = Returns (els, other) \<and>
          cssAnalysis s = Present \<lparr> css_targetSizes = targetSizes (plus_double w) els, css_other = other \<rparr>)"
    by (auto simp: css_stage_def split: outcome.splits)
  from fields show "reflowTest s = Absent \<or> reflowTest s = Null \<or>
       (\<exists>p. reflow_probe w = Returns p \<and> reflowTest s = Present (reflow_evaluate p))"
    by (auto simp: reflow_stage_def split: outcome.splits)
  from fields show "zoomTest s = Absent \<or> zoomTest s = Null \<or>
       (\<exists>p. zoom_probe w = Returns p \<and> zoomTest s = Present (zoom_evaluate p))"
    by (auto simp: zoom_stage_def split: outcome.splits)
  from fields show "mobileData s = Null \<or>
       (\<exists>p. mobile_probe w = Returns p \<and> mobileData s = Present (mobile_evaluate p)
            \<and> fully_populated (mobile_evaluate p)) \<or>
       (\<exists>e b. mobile_probe w = Throws e \<and> basic_probe w = Returns b
            \<and> mobileData s = Present (basic_evaluate b)
            \<and> \<not> fully_populated (basic_evaluate b :: 'j mobile_data))"
    by (auto simp: mobile_stage_def fully_populated_mobile_evaluate
          not_fully_populated_basic_evaluate split: outcome.splits)
qed

theorem optional_fields_witness:
  "\<exists>s. fst (fetchWebsiteContent example_world ''https://shop.example/'') = Returns s
       \<and> cssAnalysis s = Present \<lparr> css_targetSizes = [], css_other = () \<rparr>
       \<and> (\<exists>p. reflowTest s = Present (reflow_evaluate p))
       \<and> (\<exists>p. zoomTest s = Present (zoom_evaluate p))
       \<and> (\<exists>b. mobileData s = Present (basic_evaluate b))"
proof -
  obtain s where s: "fst (fetchWebsiteContent example_world ''https://shop.example/'') = Returns s"
    by (simp add: fetchWebsiteContent_def render_def example_world_def Let_def)
  have p: "css_probe example_world = Returns ([], ())"
    "\<exists>e. mobile_probe example_world = Throws e"
    by (simp_all add: example_world_def)
  from capture_Returns [OF s] have
    n: "cssAnalysis s = Present \<lparr> css_targetSizes = [], css_other = () \<rparr>"
       "reflowTest s \<noteq> Absent" "reflowTest s \<noteq> Null"
       "zoomTest s \<noteq> Absent" "zoomTest s \<noteq> Null" "mobileData s \<noteq> Null"
    by (auto dest!: render_Returns simple_Returns
          simp: example_world_def ok_def css_stage_def targetSizes_def reflow_stage_def
            zoom_stage_def mobile_stage_def)
  from optional_fields [where w = example_world and u = "''https://shop.example/''"
      and s = s and s' = s, THEN conjunct1] s n p
  show ?thesis by auto
qed

text \<open>
  C6, as stated, fails: in the example capture the mobile stage throws and the snapshot
  carries the reduced mobile data, with a count of touch targets but no details of them
  and no style analysis.
\<close>

theorem partial_mobile_data_counterexample:
  "\<exists>s m. fst (fetchWebsiteContent example_world ''https://shop.example/'') = Returns s
         \<and> mobileData s = Present m
         \<and> total_count (touchTargets m) = 3 \<and> compliant (touchTargets m) = 0
         \<and> details (touchTargets m) = Absent \<and> mobile_cssAnalysis m = Absent
         \<and> \<not> fully_populated m"
  by (simp add: fetchWebsiteContent_def render_def example_world_def Let_def mobile_stage_def
        not_fully_populated_basic_evaluate)
     (simp add: basic_evaluate_def)

subsection \<open>Style probe\<close>

text \<open>
  C8. The target-size bounds are inclusive and differ per viewport. On mobile the
  effective box is the rounded size plus the paddings, and \<open>meetsWCAG\<close> is false exactly
  when its width or its height is below 44, so a box of exactly 44 by 44 passes. On
  desktop the effective box is the size plus the paddings as the page adds them, and
  \<open>meets24x24\<close> is false exactly when its width or its height is below 24, so a box of
  exactly 24 by 24 passes, whatever the rounding of the sums. The verdicts the probes
  report are these, for the first 30 elements on desktop and the first 20 matches of
  each selector on mobile.
\<close>

theorem target_size_boundaries:
  "(meetsWCAG (touch_target_of m) \<longleftrightarrow>
      \<not> (effectiveSize_width (touch_target_of m) < 44 \<or> effectiveSize_height (touch_target_of m) < 44))
   \<and> (effectiveSize_width (touch_target_of m) = 44 \<and> effectiveSize_height (touch_target_of m) = 44
        \<longrightarrow> meetsWCAG (touch_target_of m))
   \<and> effectiveSize_width (touch_target_of m) =
        Math_round (m_rect_width m) + or_default (m_paddingLeft m) 0 + or_default (m_paddingRight m) 0
   \<and> effectiveSize_height (touch_target_of m) =
        Math_round (m_rect_height m) + or_default (m_paddingTop m) 0 + or_default (m_paddingBottom m) 0
   \<and> (meets24x24 (desktop_target dplus d) \<longleftrightarrow>
        \<not> (desktop_effectiveWidth dplus d < 24 \<or> desktop_effectiveHeight dplus d < 24))
   \<and> (desktop_effectiveWidth dplus d = 24 \<and> desktop_effectiveHeight dplus d = 24
        \<longrightarrow> meets24x24 (desktop_target dplus d))
   \<and> desktop_effectiveWidth dplus d =
        dplus (dplus (d_rect_width d) (or_default (d_paddingLeft d) 0)) (or_default (d_paddingRight d) 0)
   \<and> desktop_effectiveHeight dplus d =
        dplus (dplus (d_rect_height d) (or_default (d_paddingTop d) 0)) (or_default (d_paddingBottom d) 0)
   \<and> map meets24x24 (targetSizes dplus els) =
        map (\<lambda>el. desktop_effectiveWidth dplus el \<ge> 24 \<and> desktop_effectiveHeight dplus el \<ge> 24)
          (take 30 els)
   \<and> map meetsWCAG (interactiveElements matches) =
        map (\<lambda>el. effectiveSize_width (touch_target_of el) \<ge> 44
                  \<and> effectiveSize_height (touch_target_of el) \<ge> 44)
          (concat (map (take 20) matches))"
proof -
  have mobile: "meetsWCAG (touch_target_of x) \<longleftrightarrow>
      effectiveSize_width (touch_target_of x) \<ge> 44 \<and> effectiveSize_height (touch_target_of x) \<ge> 44"
    for x
    by (simp add: touch_target_of_def Let_def)
  have desktop: "meets24x24 (desktop_target dplus x) \<longleftrightarrow>
      desktop_effectiveWidth dplus x \<ge> 24 \<and> desktop_effectiveHeight dplus x \<ge> 24" for x
    by (simp add: desktop_target_def Let_def)
  have sizes: "map meets24x24 (targetSizes dplus els) =
        map (\<lambda>el. desktop_effectiveWidth dplus el \<ge> 24 \<and> desktop_effectiveHeight dplus el \<ge> 24)
          (take 30 els)"
    by (simp add: targetSizes_def desktop)
  have targets: "map meetsWCAG (interactiveElements matches) =
        map (\<lambda>el. effectiveSize_width (touch_target_of el) \<ge> 44
                  \<and> effectiveSize_height (touch_target_of el) \<ge> 44)
          (concat (map (take 20) matches))"
    by (simp add: interactiveElements_def map_concat comp_def mobile)
  have widths:
    "effectiveSize_width (touch_target_of m) =
        Math_round (m_rect_width m) + or_default (m_paddingLeft m) 0 + or_default (m_paddingRight m) 0"
    "effectiveSize_height (touch_target_of m) =
        Math_round (m_rect_height m) + or_default (m_paddingTop m) 0 + or_default (m_paddingBottom m) 0"
    by (simp_all add: touch_target_of_def getElementSize_def Let_def)
  have sums:
    "desktop_effectiveWidth dplus d =
        dplus (dplus (d_rect_width d) (or_default (d_paddingLeft d) 0)) (or_default (d_paddingRight d) 0)"
    "desktop_effectiveHeight dplus d =
        dplus (dplus (d_rect_height d) (or_default (d_paddingTop d) 0)) (or_default (d_paddingBottom d) 0)"
    by (simp_all add: desktop_effectiveWidth_def desktop_effectiveHeight_def)
  from mobile [of m] desktop [of d] have
    "meetsWCAG (touch_target_of m) \<longleftrightarrow>
      \<not> (effectiveSize_width (touch_target_of m) < 44 \<or> effectiveSize_height (touch_target_of m) < 44)"
    "effectiveSize_width (touch_target_of m) = 44 \<and> effectiveSize_height (touch_target_of m) = 44
        \<longrightarrow> meetsWCAG (touch_target_of m)"
    "meets24x24 (desktop_target dplus d) \<longleftrightarrow>
        \<not> (desktop_effectiveWidth dplus d < 24 \<or> desktop_effectiveHeight dplus d < 24)"
    "desktop_effectiveWidth dplus d = 24 \<and> desktop_effectiveHeight dplus d = 24
        \<longrightarrow> meets24x24 (desktop_target dplus d)"
    by auto
  with widths sums sizes targets show ?thesis by blast
qed

theorem target_size_boundaries_witness:
  "effectiveSize_width
       (touch_target_of \<lparr> m_tagName = ''button'', m_textContent = ''Buy'',
           m_rect_width = 40, m_rect_height = 30, m_rect_x = 8, m_rect_y = 8,
           m_fontSize = Some 14, m_paddingTop = Some 7, m_paddingBottom = Some 7,
           m_paddingLeft = Some 2, m_paddingRight = Some 2 \<rparr>) = 44
   \<and> effectiveSize_height
       (touch_target_of \<lparr> m_tagName = ''button'', m_textContent = ''Buy'',
           m_rect_width = 40, m_rect_height = 30, m_rect_x = 8, m_rect_y = 8,
           m_fontSize = Some 14, m_paddingTop = Some 7, m_paddingBottom = Some 7,
           m_paddingLeft = Some 2, m_paddingRight = Some 2 \<rparr>) = 44
   \<and> meetsWCAG
       (touch_target_of \<lparr> m_tagName = ''button'', m_textContent = ''Buy'',
           m_rect_width = 40, m_rect_height = 30, m_rect_x = 8, m_rect_y = 8,
           m_fontSize = Some 14, m_paddingTop = Some 7, m_paddingBottom = Some 7,
           m_paddingLeft = Some 2, m_paddingRight = Some 2 \<rparr>)
   \<and> desktop_effectiveWidth (\<lambda>x y. x + y)
       \<lparr> d_tagName = ''a'', d_textContent = ''More'', d_rect_width = 20, d_rect_height = 18,
         d_paddingTop = Some 3, d_paddingBottom = Some 3,
         d_paddingLeft = Some 2, d_paddingRight = Some 2 \<rparr> = 24
   \<and> desktop_effectiveHeight (\<lambda>x y. x + y)
       \<lparr> d_tagName = ''a'', d_textContent = ''More'', d_rect_width = 20, d_rect_height = 18,
         d_paddingTop = Some 3, d_paddingBottom = Some 3,
         d_paddingLeft = Some 2, d_paddingRight = Some 2 \<rparr> = 24
   \<and> meets24x24
       (desktop_target (\<lambda>x y. x + y)
          \<lparr> d_tagName = ''a'', d_textContent = ''More'', d_rect_width = 20, d_rect_height = 18,
            d_paddingTop = Some 3, d_paddingBottom = Some 3,
            d_paddingLeft = Some 2, d_paddingRight = Some 2 \<rparr>)
   \<and> map meets24x24
       (targetSizes (\<lambda>x y. x + y)
          [\<lparr> d_tagName = ''a'', d_textContent = ''More'', d_rect_width = 20, d_rect_height = 18,
             d_paddingTop = Some 3, d_paddingBottom = Some 3,
             d_paddingLeft = Some 2, d_paddingRight = Some 2 \<rparr>]) = [True]
   \<and> map meetsWCAG
       (interactiveElements
          [[\<lparr> m_tagName = ''button'', m_textContent = ''Buy'',
              m_rect_width = 40, m_rect_height = 30, m_rect_x = 8, m_rect_y = 8,
              m_fontSize = Some 14, m_paddingTop = Some 7, m_paddingBottom = Some 7,
              m_paddingLeft = Some 2, m_paddingRight = Some 2 \<rparr>]]) = [True]"
proof -
  let ?m = "\<lparr> m_tagName = ''button'', m_textContent = ''Buy'',
           m_rect_width = 40, m_rect_height = 30, m_rect_x = 8, m_rect_y = 8,
           m_fontSize = Some 14, m_paddingTop = Some 7, m_paddingBottom = Some 7,
           m_paddingLeft = Some 2, m_paddingRight = Some 2 \<rparr>"
  let ?d = "\<lparr> d_tagName = ''a'', d_textContent = ''More'', d_rect_width = 20, d_rect_height = 18,
         d_paddingTop = Some 3, d_paddingBottom = Some 3,
         d_paddingLeft = Some 2, d_paddingRight = Some 2 \<rparr>"
  note t = target_size_boundaries [where m = ?m and d = ?d and dplus = "\<lambda>x y. x + y"
      and els = "[?d]" and matches = "[[?m]]"]
  have w: "effectiveSize_width (touch_target_of ?m) = 44"
    and h: "effectiveSize_height (touch_target_of ?m) = 44"
    using t by (simp_all add: Math_round_def or_default_def)
  have dw: "desktop_effectiveWidth (\<lambda>x y. x + y) ?d = 24"
    and dh: "desktop_effectiveHeight (\<lambda>x y. x + y) ?d = 24"
    using t by (simp_all add: or_default_def)
  have lists: "targetSizes (\<lambda>x y. x + y) [?d] = [desktop_target (\<lambda>x y. x + y) ?d]"
    "interactiveElements [[?m]] = [touch_target_of ?m]"
    by (simp_all add: targetSizes_def interactiveElements_def)
  from t w h dw dh have "meetsWCAG (touch_target_of ?m)"
    and "meets24x24 (desktop_target (\<lambda>x y. x + y) ?d)"
    by blast+
  with w h dw dh lists show ?thesis
    by simp
qed

subsection \<open>Model attempt ladder\<close>

lemma try_models_all_fail:
  assumes "\<forall>m \<in> set ms. \<exists>e. gen m = Throws e" and "ms \<noteq> []"
  shows "try_models gen ms st = st \<lparr> lastError := thrown (gen (last ms)) \<rparr>"
  using assms
proof (induction ms arbitrary: st)
  case Nil
  then show ?case by simp
next
  case (Cons m ms)
  from Cons.prems obtain e where e: "gen m = Throws e" by auto
  show ?case
  proof (cases "ms = []")
    case True
    with e show ?thesis by (simp add: thrown_def)
  next
    case False
    with Cons e show ?thesis by simp
  qed
qed

lemma try_models_first_success:
  assumes "\<forall>m \<in> set failed. \<exists>e. gen m = Throws e" and "gen winner = Returns g"
  shows "try_models gen (failed @ winner # rest) st =
           st \<lparr> lastError := (if failed = [] then lastError st else thrown (gen (last failed))),
                result := Some g, modelName := winner \<rparr>"
  using assms(1)
proof (induction failed arbitrary: st)
  case Nil
  then show ?case by (simp add: assms(2))
next
  case (Cons m failed)
  from Cons.prems obtain e where e: "gen m = Throws e" by auto
  from Cons.prems have rest: "\<forall>m \<in> set failed. \<exists>e. gen m = Throws e" by simp
  show ?case
    using Cons.IH [OF rest, of "st \<lparr> lastError := Some e \<rparr>"] e
    by (cases "failed = []") (simp_all add: thrown_def)
qed

lemma try_models_result:
  assumes "result (try_models gen ms st) = Some g" and "result st = None"
  shows "\<exists>failed rest. ms = failed @ modelName (try_models gen ms st) # rest \<and>
           (\<forall>m \<in> set failed. \<exists>e. gen m = Throws e) \<and>
           gen (modelName (try_models gen ms st)) = Returns g"
  using assms
proof (induction ms arbitrary: st)
  case Nil
  then show ?case by simp
next
  case (Cons m ms)
  show ?case
  proof (cases "gen m")
    case (Returns g')
    with Cons.prems have "g' = g" by simp
    with Returns have "m # ms = [] @ modelName (try_models gen (m # ms) st) # ms
        \<and> (\<forall>x \<in> set []. \<exists>e. gen x = Throws e)
        \<and> gen (modelName (try_models gen (m # ms) st)) = Returns g"
      by simp
    then show ?thesis by blast
  next
    case (Throws e)
    with Cons.prems have r: "result (try_models gen ms (st \<lparr> lastError := Some e \<rparr>)) = Some g"
      by simp
    from Cons.IH [OF r] Cons.prems(2) obtain failed rest where
      f: "ms = failed @ modelName (try_models gen ms (st \<lparr> lastError := Some e \<rparr>)) # rest"
        "\<forall>x \<in> set failed. \<exists>e. gen x = Throws e"
        "gen (modelName (try_models gen ms (st \<lparr> lastError := Some e \<rparr>))) = Returns g"
      by auto
    from Throws have same: "try_models gen (m # ms) st = try_models gen ms (st \<lparr> lastError := Some e \<rparr>)"
      by simp
    from f Throws have "m # ms = (m # failed) @ modelName (try_models gen (m # ms) st) # rest
        \<and> (\<forall>x \<in> set (m # failed). \<exists>e. gen x = Throws e)
        \<and> gen (modelName (try_models gen (m # ms) st)) = Returns g"
      unfolding same by auto
    then show ?thesis by blast
  qed
qed

lemma modelsToTry_cases:
  "modelsToTry requested =
     (if requested = ''gemini-3-pro-preview''
      then [''gemini-3-pro-preview'', ''gemini-2.5-pro'', ''gemini-2.5-flash'', ''gemini-2.0-flash'']
      else if requested = ''gemini-2.5-pro''
      then [''gemini-2.5-pro'', ''gemini-3-pro-preview'', ''gemini-2.5-flash'', ''gemini-2.0-flash'']
      else if requested = ''gemini-2.5-flash''
      then [''gemini-2.5-flash'', ''gemini-3-pro-preview'', ''gemini-2.5-pro'', ''gemini-2.0-flash'']
      else if requested = ''gemini-2.0-flash''
      then [''gemini-2.0-flash'', ''gemini-3-pro-preview'', ''gemini-2.5-pro'', ''gemini-2.5-flash'']
      else [''gemini-3-pro-preview'', ''gemini-2.5-pro'', ''gemini-2.5-flash'', ''gemini-2.0-flash''])"
  by (simp add: modelsToTry_def default_models_def unique_def)

lemma modelsToTry_nonempty: "modelsToTry requested \<noteq> []"
  by (simp add: modelsToTry_cases)

lemma reconcile_model: "reconcile parse g name raw = Returns r \<Longrightarrow> model r = name"
  by (auto simp: reconcile_def respond_def Let_def split: outcome.splits)

text \<open>
  C3, as the code has it. When every backend of the ladder fails, the loop leaves no
  result and only the message of the last attempt, and the handler throws one error
  whose text holds that last message ("Unknown error" in place of an empty one) between
  two fixed sentences. The messages of the earlier attempts are not in it.
\<close>

theorem ladder_exhausted:
  "(ms \<noteq> [] \<and> (\<forall>m \<in> set ms. \<exists>e. generateContent m = Throws e) \<longrightarrow>
      try_models generateContent ms st = st \<lparr> lastError := thrown (generateContent (last ms)) \<rparr>)
   \<and> (prefix ''gemini'' requested \<and> genAI
       \<and> (\<forall>m \<in> set (modelsToTry requested). \<exists>e. generateContent m = Throws e) \<longrightarrow>
      call_model genAI generateContent parse requested =
        Throws (all_failed_message (thrown (generateContent (last (modelsToTry requested))))))
   \<and> all_failed_message (Some reason) =
        ''Gemini API error: All models failed. Last error: '' @
        (if reason = [] then ''Unknown error'' else reason) @
        ''. Note: Some models may require billing to be enabled in Google AI Studio.''"
proof (intro conjI impI)
  assume "ms \<noteq> [] \<and> (\<forall>m \<in> set ms. \<exists>e. generateContent m = Throws e)"
  then show "try_models generateContent ms st =
      st \<lparr> lastError := thrown (generateContent (last ms)) \<rparr>"
    by (simp add: try_models_all_fail)
next
  assume a: "prefix ''gemini'' requested \<and> genAI
       \<and> (\<forall>m \<in> set (modelsToTry requested). \<exists>e. generateContent m = Throws e)"
  then have "try_models generateContent (modelsToTry requested) st' =
      st' \<lparr> lastError := thrown (generateContent (last (modelsToTry requested))) \<rparr>" for st'
    by (simp add: try_models_all_fail modelsToTry_nonempty)
  with a show "call_model genAI generateContent parse requested =
        Throws (all_failed_message (thrown (generateContent (last (modelsToTry requested)))))"
    by (simp add: call_model_def Let_def)
next
  show "all_failed_message (Some reason) =
        ''Gemini API error: All models failed. Last error: '' @
        (if reason = [] then ''Unknown error'' else reason) @
        ''. Note: Some models may require billing to be enabled in Google AI Studio.''"
    by (simp add: all_failed_message_def)
qed

lemma prefix_gemini_3: "prefix ''gemini'' ''gemini-3-pro-preview''"
  by simp

theorem ladder_exhausted_witness:
  "prefix ''gemini'' ''gemini-3-pro-preview''
   \<and> modelsToTry ''gemini-3-pro-preview'' =
       [''gemini-3-pro-preview'', ''gemini-2.5-pro'', ''gemini-2.5-flash'', ''gemini-2.0-flash'']
   \<and> all_backends_fail ''gemini-3-pro-preview'' = Throws ''quota exceeded''
   \<and> all_backends_fail ''gemini-2.5-pro'' = Throws ''billing not enabled''
   \<and> all_backends_fail ''gemini-2.5-flash'' = Throws ''model overloaded''
   \<and> all_backends_fail ''gemini-2.0-flash'' = Throws ''model overloaded''
   \<and> call_model True all_backends_fail (JSON_parse engine_message) ''gemini-3-pro-preview'' =
       Throws (all_failed_message (Some ''model overloaded''))"
proof -
  have m: "modelsToTry ''gemini-3-pro-preview'' =
       [''gemini-3-pro-preview'', ''gemini-2.5-pro'', ''gemini-2.5-flash'', ''gemini-2.0-flash'']"
    by (simp add: modelsToTry_cases)
  have f: "all_backends_fail ''gemini-3-pro-preview'' = Throws ''quota exceeded''"
    "all_backends_fail ''gemini-2.5-pro'' = Throws ''billing not enabled''"
    "all_backends_fail ''gemini-2.5-flash'' = Throws ''model overloaded''"
    "all_backends_fail ''gemini-2.0-flash'' = Throws ''model overloaded''"
    by (simp_all add: all_backends_fail_def)
  have all: "\<forall>m \<in> set (modelsToTry ''gemini-3-pro-preview''). \<exists>e. all_backends_fail m = Throws e"
    unfolding m using f by simp
  from ladder_exhausted [where requested = "''gemini-3-pro-preview''" and genAI = True
      and generateContent = all_backends_fail and parse = "JSON_parse engine_message",
      THEN conjunct2, THEN conjunct1] all prefix_gemini_3
  have "call_model True all_backends_fail (JSON_parse engine_message) ''gemini-3-pro-preview'' =
       Throws (all_failed_message (thrown (all_backends_fail (last (modelsToTry ''gemini-3-pro-preview'')))))"
    by blast
  then have "call_model True all_backends_fail (JSON_parse engine_message) ''gemini-3-pro-preview'' =
       Throws (all_failed_message (Some ''model overloaded''))"
    by (simp add: m f thrown_def)
  with m f prefix_gemini_3 show ?thesis by blast
qed

text \<open>
  C3, as stated, fails: on a backend where the four models fail with "quota exceeded",
  "billing not enabled" and twice "model overloaded", the error thrown names the last
  reason only, and it is the very error of a backend whose earlier attempts failed for
  other reasons.
\<close>

theorem earlier_reasons_lost_counterexample:
  "call_model True all_backends_fail (JSON_parse engine_message) ''gemini-3-pro-preview'' =
     Throws (''Gemini API error: All models failed. Last error: model overloaded'' @
             ''. Note: Some models may require billing to be enabled in Google AI Studio.'')
   \<and> all_backends_fail ''gemini-3-pro-preview'' = Throws ''quota exceeded''
   \<and> all_backends_fail ''gemini-2.5-pro'' = Throws ''billing not enabled''
   \<and> other_reasons ''gemini-3-pro-preview'' = Throws ''permission denied''
   \<and> other_reasons ''gemini-2.5-pro'' = Throws ''permission denied''
   \<and> call_model True other_reasons (JSON_parse engine_message) ''gemini-3-pro-preview'' =
       call_model True all_backends_fail (JSON_parse engine_message) ''gemini-3-pro-preview''"
  by (simp add: call_model_def modelsToTry_cases all_backends_fail_def other_reasons_def
        all_failed_message_def Let_def)

text \<open>
  C4, as the code has it. For a requested model among the four defaults the ladder is
  that model followed by the other defaults in their order; for any other requested
  model the ladder is the four defaults as they are. The models are tried in order, the
  first that answers ends the loop with its name kept, and a report the handler returns
  names the first model of the ladder that answered, all models before it having failed.
\<close>

theorem ladder_order:
  "(requested \<in> set default_models \<longrightarrow>
      modelsToTry requested = requested # filter (\<lambda>m. m \<noteq> requested) default_models)
   \<and> (requested \<notin> set default_models \<longrightarrow> modelsToTry requested = default_models)
   \<and> ((\<forall>m \<in> set failed. \<exists>e. generateContent m = Throws e) \<and> generateContent winner = Returns g
        \<longrightarrow> try_models generateContent (failed @ winner # rest) st =
            st \<lparr> lastError := (if failed = [] then lastError st
                               else thrown (generateContent (last failed))),
                 result := Some g, modelName := winner \<rparr>)
   \<and> (call_model genAI generateContent parse requested = Returns (Report r) \<longrightarrow>
        (\<exists>failed rest g raw.
           modelsToTry requested = failed @ model r # rest
           \<and> (\<forall>m \<in> set failed. \<exists>e. generateContent m = Throws e)
           \<and> generateContent (model r) = Returns g
           \<and> response_text g = Returns raw
           \<and> reconcile parse g (model r) raw = Returns r))"
proof (intro conjI impI)
  assume "requested \<in> set default_models"
  then show "modelsToTry requested = requested # filter (\<lambda>m. m \<noteq> requested) default_models"
    by (auto simp: modelsToTry_cases default_models_def)
next
  assume "requested \<notin> set default_models"
  then show "modelsToTry requested = default_models"
    by (simp add: modelsToTry_def)
next
  assume "(\<forall>m \<in> set failed. \<exists>e. generateContent m = Throws e) \<and> generateContent winner = Returns g"
  then show "try_models generateContent (failed @ winner # rest) st =
            st \<lparr> lastError := (if failed = [] then lastError st
                               else thrown (generateContent (last failed))),
                 result := Some g, modelName := winner \<rparr>"
    by (simp add: try_models_first_success)
next
  assume c: "call_model genAI generateContent parse requested = Returns (Report r)"
  define st0 where "st0 = \<lparr> result = None,
      modelName = (if requested \<noteq> [] then requested else ''gemini-2.0-flash''),
      lastError = None \<rparr>"
  define st where "st = try_models generateContent (modelsToTry requested) st0"
  from c obtain g raw where
    g: "result st = Some g" "response_text g = Returns raw"
       "reconcile parse g (modelName st) raw = Returns r"
    unfolding st_def st0_def
    by (auto simp: call_model_def Let_def split: if_splits option.splits outcome.splits)
  from reconcile_model [OF g(3)] have name: "modelName st = model r" by simp
  have "result st0 = None" by (simp add: st0_def)
  from try_models_result [OF g(1) [unfolded st_def] this]
  obtain failed rest where
    "modelsToTry requested = failed @ modelName st # rest"
    "\<forall>m \<in> set failed. \<exists>e. generateContent m = Throws e"
    "generateContent (modelName st) = Returns g"
    unfolding st_def by blast
  with g name show "\<exists>failed rest g raw.
           modelsToTry requested = failed @ model r # rest
           \<and> (\<forall>m \<in> set failed. \<exists>e. generateContent m = Throws e)
           \<and> generateContent (model r) = Returns g
           \<and> response_text g = Returns raw
           \<and> reconcile parse g (model r) raw = Returns r"
    by auto
qed

lemma empty_object_is_json: "json_text (code_units ''{}'')"
  by code_simp

lemma clean_empty_object: "clean (code_units ''{}'') = code_units ''{}''"
  by code_simp

lemma other_backend_answers:
  "call_model True every_backend_answers (JSON_parse engine_message) ''gemini-2.5-flash-lite'' =
     Returns (Report \<lparr> content_text = code_units ''{}'', model = ''gemini-3-pro-preview'',
                        input_tokens = 10, output_tokens = 2 \<rparr>)"
  by (simp add: call_model_def modelsToTry_cases every_backend_answers_def Let_def
        reconcile_def clean_empty_object JSON_parse_def empty_object_is_json respond_def)

theorem ladder_order_witness:
  "''gemini-2.5-flash'' \<in> set default_models
   \<and> modelsToTry ''gemini-2.5-flash'' =
       [''gemini-2.5-flash'', ''gemini-3-pro-preview'', ''gemini-2.5-pro'', ''gemini-2.0-flash'']
   \<and> ''gemini-2.5-flash-lite'' \<notin> set default_models
   \<and> modelsToTry ''gemini-2.5-flash-lite'' = default_models
   \<and> (\<exists>failed rest. modelsToTry ''gemini-2.5-flash-lite'' = failed @ ''gemini-3-pro-preview'' # rest
        \<and> (\<exists>g. every_backend_answers ''gemini-3-pro-preview'' = Returns g))"
proof -
  have a: "''gemini-2.5-flash'' \<in> set default_models" "''gemini-2.5-flash-lite'' \<notin> set default_models"
    by (simp_all add: default_models_def)
  note o = ladder_order [where requested = "''gemini-2.5-flash''", THEN conjunct1]
  note n = ladder_order [where requested = "''gemini-2.5-flash-lite''", THEN conjunct2, THEN conjunct1]
  note r = ladder_order [where requested = "''gemini-2.5-flash-lite''" and genAI = True
      and generateContent = every_backend_answers and parse = "JSON_parse engine_message"
      and r = "\<lparr> content_text = code_units ''{}'', model = ''gemini-3-pro-preview'',
                  input_tokens = 10, output_tokens = 2 \<rparr>",
      THEN conjunct2, THEN conjunct2, THEN conjunct2]
  from o a have "modelsToTry ''gemini-2.5-flash'' =
       [''gemini-2.5-flash'', ''gemini-3-pro-preview'', ''gemini-2.5-pro'', ''gemini-2.0-flash'']"
    by (simp add: default_models_def)
  moreover from n a have "modelsToTry ''gemini-2.5-flash-lite'' = default_models"
    by simp
  moreover from r other_backend_answers
  have "\<exists>failed rest. modelsToTry ''gemini-2.5-flash-lite'' = failed @ ''gemini-3-pro-preview'' # rest
        \<and> (\<exists>g. every_backend_answers ''gemini-3-pro-preview'' = Returns g)"
    by simp blast
  ultimately show ?thesis using a by blast
qed

text \<open>
  C4, as stated, fails: the request for "gemini-2.5-flash-lite" passes the handler's prefix
  test, the ladder is the four defaults without it, and the report comes from
  "gemini-3-pro-preview".
\<close>

theorem requested_not_tried_counterexample:
  "prefix ''gemini'' ''gemini-2.5-flash-lite''
   \<and> modelsToTry ''gemini-2.5-flash-lite'' =
       [''gemini-3-pro-preview'', ''gemini-2.5-pro'', ''gemini-2.5-flash'', ''gemini-2.0-flash'']
   \<and> ''gemini-2.5-flash-lite'' \<notin> set (modelsToTry ''gemini-2.5-flash-lite'')
   \<and> call_model True every_backend_answers (JSON_parse engine_message) ''gemini-2.5-flash-lite'' =
       Returns (Report \<lparr> content_text = code_units ''{}'', model = ''gemini-3-pro-preview'',
                          input_tokens = 10, output_tokens = 2 \<rparr>)"
  using other_backend_answers by (simp add: modelsToTry_cases)

subsection \<open>Model response reconciler\<close>

lemma unit_values:
  "unit_of (CHR ''`'') = 96" "unit_of (CHR ''{'') = 123" "unit_of (CHR ''}'') = 125"
  "unit_of (CHR ''['') = 91" "unit_of (CHR '']'') = 93" "unit_of (CHR '','') = 44"
  by (simp_all add: unit_of_def)

lemma fence_units: "code_units ''```'' = [96, 96, 96]"
  by (simp add: code_units_def unit_of_def)

lemma json_fence_units: "code_units ''```json'' = [96, 96, 96, 106, 115, 111, 110]"
  by (simp add: code_units_def unit_of_def)

lemma closers_are_not_space:
  "\<not> space_unit (unit_of (CHR ''}''))" "\<not> space_unit (unit_of (CHR '']''))"
  by (simp_all add: space_unit_def unit_of_def)

lemma comma_is_not_space: "space_unit c \<Longrightarrow> c \<noteq> unit_of (CHR '','')"
  by (auto simp: space_unit_def unit_of_def)

lemma dropWhile_run:
  assumes "\<forall>c \<in> set ws. P c" and "rest = [] \<or> \<not> P (hd rest)"
  shows "dropWhile P (ws @ rest) = rest"
proof (cases rest)
  case Nil
  with assms(1) show ?thesis by simp
next
  case (Cons r rs)
  with assms(2) have "\<not> P r" by simp
  with assms(1) show ?thesis unfolding Cons by (simp add: dropWhile_append3)
qed

lemma remove_fences_at_fence:
  "prefix (code_units ''```'') (c # cs) \<Longrightarrow>
     remove_fences (c # cs) = remove_fences (dropWhile space_unit (drop 2 cs))"
  by (simp only: remove_fences.simps if_True)

lemma remove_fences_elsewhere:
  "\<not> prefix (code_units ''```'') (c # cs) \<Longrightarrow> remove_fences (c # cs) = c # remove_fences cs"
  by (simp only: remove_fences.simps if_False)

lemma remove_json_fences_at_fence:
  "prefix (code_units ''```json'') (c # cs) \<Longrightarrow>
     remove_json_fences (c # cs) = remove_json_fences (dropWhile space_unit (drop 6 cs))"
  by (simp only: remove_json_fences.simps if_True)

lemma remove_json_fences_elsewhere:
  "\<not> prefix (code_units ''```json'') (c # cs) \<Longrightarrow>
     remove_json_fences (c # cs) = c # remove_json_fences cs"
  by (simp only: remove_json_fences.simps if_False)

lemma remove_fences_backtick:
  assumes "remove_fences cs = 96 # r"
  shows "\<exists>cs'. cs = 96 # cs'"
proof (cases cs)
  case Nil
  with assms show ?thesis by simp
next
  case (Cons d ds)
  show ?thesis
  proof (cases "prefix (code_units ''```'') (d # ds)")
    case True
    with Cons show ?thesis by (auto simp: fence_units)
  next
    case False
    with assms Cons show ?thesis by (simp add: remove_fences_elsewhere)
  qed
qed

lemma remove_fences_two_backticks:
  assumes "remove_fences cs = 96 # 96 # r"
  shows "\<exists>cs'. cs = 96 # 96 # cs'"
proof (cases cs)
  case Nil
  with assms show ?thesis by simp
next
  case (Cons d ds)
  show ?thesis
  proof (cases "prefix (code_units ''```'') (d # ds)")
    case True
    with Cons show ?thesis by (auto simp: fence_units prefix_def)
  next
    case False
    with assms Cons have "d # remove_fences ds = 96 # 96 # r"
      by (simp add: remove_fences_elsewhere)
    then have d: "d = 96" and "remove_fences ds = 96 # r"
      by simp_all
    from remove_fences_backtick [OF this(2)] d Cons show ?thesis by auto
  qed
qed

lemma no_fence_left: "\<not> sublist (code_units ''```'') (remove_fences s)"
proof (induction s rule: remove_fences.induct)
  case 1
  show ?case by (simp add: fence_units)
next
  case (2 c cs)
  show ?case
  proof (cases "prefix (code_units ''```'') (c # cs)")
    case True
    show ?thesis
      unfolding remove_fences_at_fence [OF True] by (rule 2(1) [OF True])
  next
    case False
    from 2(2) [OF False] have ih: "\<not> sublist (code_units ''```'') (remove_fences cs)" .
    have np: "\<not> prefix (code_units ''```'') (c # remove_fences cs)"
    proof
      assume "prefix (code_units ''```'') (c # remove_fences cs)"
      then obtain r where c: "c = 96" and "remove_fences cs = 96 # 96 # r"
        by (auto simp: fence_units prefix_def)
      from remove_fences_two_backticks [OF this(2)] c have "prefix (code_units ''```'') (c # cs)"
        by (auto simp: fence_units prefix_def)
      with False show False by blast
    qed
    from np ih show ?thesis
      unfolding remove_fences_elsewhere [OF False] sublist_Cons_right by blast
  qed
qed

lemma remove_fences_without_fence:
  "\<not> sublist (code_units ''```'') s \<Longrightarrow> remove_fences s = s"
proof (induction s)
  case Nil
  show ?case by simp
next
  case (Cons c cs)
  from Cons.prems have "\<not> prefix (code_units ''```'') (c # cs)" and "\<not> sublist (code_units ''```'') cs"
    unfolding sublist_Cons_right by blast+
  with Cons.IH show ?case by (simp add: remove_fences_elsewhere)
qed

lemma remove_json_fences_without_fence:
  "\<not> sublist (code_units ''```json'') s \<Longrightarrow> remove_json_fences s = s"
proof (induction s)
  case Nil
  show ?case by simp
next
  case (Cons c cs)
  from Cons.prems have "\<not> prefix (code_units ''```json'') (c # cs)"
    and "\<not> sublist (code_units ''```json'') cs"
    unfolding sublist_Cons_right by blast+
  with Cons.IH show ?case by (simp add: remove_json_fences_elsewhere)
qed

lemma remove_fences_marker:
  assumes "\<forall>c \<in> set ws. space_unit c" and "rest = [] \<or> \<not> space_unit (hd rest)"
  shows "remove_fences (code_units ''```'' @ ws @ rest) = remove_fences rest"
proof -
  have "prefix (code_units ''```'') (96 # [96, 96] @ ws @ rest)"
    by (simp add: fence_units)
  from remove_fences_at_fence [OF this] dropWhile_run [OF assms]
  show ?thesis by (simp add: fence_units)
qed

lemma remove_json_fences_marker:
  assumes "\<forall>c \<in> set ws. space_unit c" and "rest = [] \<or> \<not> space_unit (hd rest)"
  shows "remove_json_fences (code_units ''```json'' @ ws @ rest) = remove_json_fences rest"
proof -
  have "prefix (code_units ''```json'') (96 # [96, 96, 106, 115, 111, 110] @ ws @ rest)"
    by (simp add: json_fence_units)
  from remove_json_fences_at_fence [OF this] dropWhile_run [OF assms]
  show ?thesis by (simp add: json_fence_units)
qed

lemma trim_text_core:
  assumes "\<forall>c \<in> set ws1. space_unit c" and "\<forall>c \<in> set ws2. space_unit c"
    and "core = [] \<or> (\<not> space_unit (hd core) \<and> \<not> space_unit (last core))"
  shows "trim_text (ws1 @ core @ ws2) = core"
proof (cases "core = []")
  case True
  from assms(1,2) have "\<forall>c \<in> set (ws1 @ ws2). space_unit c" by auto
  then have d: "dropWhile space_unit (ws1 @ ws2) = []" by (simp only: dropWhile_eq_Nil_conv)
  from True have "trim_text (ws1 @ core @ ws2) = trim_text (ws1 @ ws2)" by simp
  also have "\<dots> = []" unfolding trim_text_def d by simp
  finally show ?thesis using True by simp
next
  case False
  with assms(3) have h: "\<not> space_unit (hd core)" and l: "\<not> space_unit (last core)"
    by simp_all
  from False h have "core @ ws2 = [] \<or> \<not> space_unit (hd (core @ ws2))" by simp
  from dropWhile_run [OF assms(1) this]
  have front: "dropWhile space_unit (ws1 @ core @ ws2) = core @ ws2" .
  from assms(2) have "\<forall>c \<in> set (rev ws2). space_unit c" by simp
  moreover from False l have "rev core = [] \<or> \<not> space_unit (hd (rev core))"
    by (simp add: hd_rev)
  ultimately have "dropWhile space_unit (rev ws2 @ rev core) = rev core"
    by (rule dropWhile_run)
  with front show ?thesis by (simp add: trim_text_def)
qed

lemma sublist_trim_text: "sublist (trim_text s) s"
proof -
  define d where "d = dropWhile space_unit s"
  have "rev d = takeWhile space_unit (rev d) @ dropWhile space_unit (rev d)" by simp
  then have "d = rev (dropWhile space_unit (rev d)) @ rev (takeWhile space_unit (rev d))"
    by (metis rev_append rev_rev_ident)
  moreover have "s = takeWhile space_unit s @ d" by (simp add: d_def)
  ultimately have "s = takeWhile space_unit s @ trim_text s @ rev (takeWhile space_unit (rev d))"
    by (simp add: trim_text_def d_def)
  then show ?thesis unfolding sublist_def by blast
qed

lemma sublist_match_object:
  assumes "match_object s = Some m"
  shows "sublist m s"
proof -
  define d where "d = dropWhile (\<lambda>c. c \<noteq> unit_of (CHR ''{'')) s"
  define P where "P = (\<lambda>c. c \<noteq> unit_of (CHR ''}''))"
  from assms have m: "m = rev (dropWhile P (rev d))"
    by (auto simp: match_object_def Let_def d_def P_def split: if_splits)
  have "rev d = takeWhile P (rev d) @ dropWhile P (rev d)" by simp
  then have "d = rev (dropWhile P (rev d)) @ rev (takeWhile P (rev d))"
    by (metis rev_append rev_rev_ident)
  moreover have "s = takeWhile (\<lambda>c. c \<noteq> unit_of (CHR ''{'')) s @ d" by (simp add: d_def)
  ultimately have "s = takeWhile (\<lambda>c. c \<noteq> unit_of (CHR ''{'')) s @ m @ rev (takeWhile P (rev d))"
    using m by simp
  then show ?thesis unfolding sublist_def by blast
qed

lemma clean_no_fence: "\<not> sublist (code_units ''```'') (clean raw)"
proof
  assume a: "sublist (code_units ''```'') (clean raw)"
  have "sublist (clean raw) (trim_text (remove_fences (remove_json_fences raw)))"
    by (auto simp: clean_def Let_def sublist_match_object split: option.splits)
  also have "sublist \<dots> (remove_fences (remove_json_fences raw))" by (rule sublist_trim_text)
  finally have "sublist (clean raw) (remove_fences (remove_json_fences raw))" .
  with a have "sublist (code_units ''```'') (remove_fences (remove_json_fences raw))"
    by (rule sublist_order.order_trans)
  with no_fence_left show False by blast
qed

lemma match_object_span:
  assumes "unit_of (CHR ''{'') \<notin> set before" and "unit_of (CHR ''}'') \<notin> set after"
  shows "match_object (before @ unit_of (CHR ''{'') # inside @ unit_of (CHR ''}'') # after) =
           Some (unit_of (CHR ''{'') # inside @ [unit_of (CHR ''}'')])"
proof -
  define ob where "ob = unit_of (CHR ''{'')"
  define cb where "cb = unit_of (CHR ''}'')"
  have open_at: "dropWhile (\<lambda>c. c \<noteq> ob) (before @ ob # inside @ cb # after) =
      ob # inside @ cb # after"
    using assms(1) by (auto simp: dropWhile_append3 ob_def)
  have "dropWhile (\<lambda>c. c \<noteq> cb) (rev after @ cb # rev inside @ [ob]) =
      cb # rev inside @ [ob]"
    using assms(2) by (auto simp: dropWhile_append3 cb_def)
  then have close_at: "rev (dropWhile (\<lambda>c. c \<noteq> cb) (rev (ob # inside @ cb # after))) =
      ob # inside @ [cb]"
    by simp
  have "match_object (before @ ob # inside @ cb # after) = Some (ob # inside @ [cb])"
    unfolding match_object_def ob_def [symmetric] cb_def [symmetric] open_at Let_def close_at
    by simp
  then show ?thesis by (simp add: ob_def cb_def)
qed

lemma match_object_None:
  "unit_of (CHR ''}'') \<notin> set (dropWhile (\<lambda>c. c \<noteq> unit_of (CHR ''{'')) s) \<Longrightarrow> match_object s = None"
  by (simp add: match_object_def)

lemma occurrences_fix_trailing_commas:
  "c \<noteq> unit_of (CHR '','') \<Longrightarrow> occurrences c (fix_trailing_commas s) = occurrences c s"
  by (induction s) (auto simp: occurrences_def)

lemma fix_trailing_commas_keeps:
  "filter (\<lambda>c. c \<noteq> unit_of (CHR '','')) (fix_trailing_commas s) =
     filter (\<lambda>c. c \<noteq> unit_of (CHR '','')) s"
  by (induction s) auto

lemma close_unclosed_appends:
  "close_unclosed t =
     t @ replicate (occurrences (unit_of (CHR ''['')) t - occurrences (unit_of (CHR '']'')) t)
           (unit_of (CHR '']''))
       @ replicate (occurrences (unit_of (CHR ''{'')) t - occurrences (unit_of (CHR ''}'')) t)
           (unit_of (CHR ''}''))"
  by (simp add: close_unclosed_def Let_def)

lemma fix_trailing_commas_spaces:
  "\<forall>c \<in> set ws. space_unit c \<Longrightarrow> fix_trailing_commas (ws @ cs) = ws @ fix_trailing_commas cs"
  by (induction ws) (auto dest: comma_is_not_space)

lemma before_closer_spaces:
  assumes "\<forall>c \<in> set ws. space_unit c"
    and "closer = unit_of (CHR ''}'') \<or> closer = unit_of (CHR '']'')"
  shows "before_closer (ws @ closer # rest)"
proof -
  from assms(2) have "\<not> space_unit closer" by (auto simp: closers_are_not_space)
  with assms(1) have "dropWhile space_unit (ws @ closer # rest) = closer # rest"
    by (simp add: dropWhile_append3)
  with assms(2) show ?thesis by (simp add: before_closer_def)
qed

lemma before_closer_iff:
  "before_closer cs \<longleftrightarrow>
     (\<exists>ws closer rest. cs = ws @ closer # rest \<and> (\<forall>c \<in> set ws. space_unit c)
        \<and> (closer = unit_of (CHR ''}'') \<or> closer = unit_of (CHR '']'')))"
proof
  assume b: "before_closer cs"
  then obtain d ds where d: "dropWhile space_unit cs = d # ds"
    by (auto simp: before_closer_def split: list.splits)
  with b have "d = unit_of (CHR ''}'') \<or> d = unit_of (CHR '']'')"
    by (simp add: before_closer_def)
  moreover have "cs = takeWhile space_unit cs @ d # ds"
    using d by (metis takeWhile_dropWhile_id)
  moreover have "\<forall>c \<in> set (takeWhile space_unit cs). space_unit c"
    by (auto dest: set_takeWhileD)
  ultimately show "\<exists>ws closer rest. cs = ws @ closer # rest \<and> (\<forall>c \<in> set ws. space_unit c)
        \<and> (closer = unit_of (CHR ''}'') \<or> closer = unit_of (CHR '']''))"
    by blast
next
  assume "\<exists>ws closer rest. cs = ws @ closer # rest \<and> (\<forall>c \<in> set ws. space_unit c)
        \<and> (closer = unit_of (CHR ''}'') \<or> closer = unit_of (CHR '']''))"
  then show "before_closer cs"
    by (auto simp: before_closer_spaces)
qed

lemma fix_trailing_commas_drops:
  assumes "\<forall>c \<in> set ws. space_unit c"
    and "closer = unit_of (CHR ''}'') \<or> closer = unit_of (CHR '']'')"
  shows "fix_trailing_commas (unit_of (CHR '','') # ws @ closer # rest) =
           ws @ closer # fix_trailing_commas rest"
proof -
  from assms(2) have "closer \<noteq> unit_of (CHR '','')" by (auto simp: unit_values)
  then have "fix_trailing_commas (closer # rest) = closer # fix_trailing_commas rest" by simp
  with before_closer_spaces [OF assms] fix_trailing_commas_spaces [OF assms(1)]
  show ?thesis by simp
qed

text \<open>
  C5, as the code has it. The raw text is first cleaned. Every marker \<^verbatim>\<open>```json\<close> with
  the white space after it is removed, then every run of three backticks with the white
  space after it, and the ends are trimmed; a text without the marker, or without three
  backticks in a row, is left as it is by the removal, and no run of three backticks is
  left in the cleaned text. Of the stripped text, the span from the first opening brace
  to the last closing brace after it is kept, or the whole stripped text when there is
  no such span. If the strict parse of the cleaned text succeeds, the report carries it.
  Otherwise one repair is made: the commas followed by optional white space and a closing
  brace or bracket are dropped, every other code unit is kept, then the missing closing
  brackets and after them the missing closing braces are appended, as many as the
  occurrence counts say. The repaired text is parsed once: on success the report carries
  it, on failure the operation throws an error whose message holds the message of the
  first parse error between two fixed sentences.
\<close>

theorem reconciliation_steps:
  "\<not> sublist (code_units ''```'') (clean raw)
   \<and> (trim_text (remove_fences (remove_json_fences raw)) =
        before @ unit_of (CHR ''{'') # inside @ unit_of (CHR ''}'') # after
      \<and> unit_of (CHR ''{'') \<notin> set before \<and> unit_of (CHR ''}'') \<notin> set after
      \<longrightarrow> clean raw = unit_of (CHR ''{'') # inside @ [unit_of (CHR ''}'')])
   \<and> (unit_of (CHR ''}'') \<notin>
        set (dropWhile (\<lambda>c. c \<noteq> unit_of (CHR ''{'')) (trim_text (remove_fences (remove_json_fences raw))))
      \<longrightarrow> clean raw = trim_text (remove_fences (remove_json_fences raw)))
   \<and> (parse (clean raw) = Returns ()
      \<longrightarrow> reconcile parse g name raw = Returns (respond g name (clean raw)))
   \<and> (parse (clean raw) = Throws parseError
       \<and> parse (close_unclosed (fix_trailing_commas (clean raw))) = Returns ()
      \<longrightarrow> reconcile parse g name raw =
            Returns (respond g name (close_unclosed (fix_trailing_commas (clean raw)))))
   \<and> (parse (clean raw) = Throws parseError
       \<and> parse (close_unclosed (fix_trailing_commas (clean raw))) = Throws fixError
      \<longrightarrow> reconcile parse g name raw = Throws (invalid_json_message parseError))
   \<and> invalid_json_message parseError =
        ''Invalid JSON response from Gemini. The response may be incomplete or malformed. Error: ''
        @ parseError @ ''. Please try again.''
   \<and> respond g name t =
        \<lparr> content_text = t, model = name,
          input_tokens = (case promptTokenCount g of None \<Rightarrow> 0 | Some n \<Rightarrow> n),
          output_tokens = (case candidatesTokenCount g of None \<Rightarrow> 0 | Some n \<Rightarrow> n) \<rparr>
   \<and> remove_json_fences [] = []
   \<and> ((\<forall>c \<in> set ws. space_unit c) \<and> (rest = [] \<or> \<not> space_unit (hd rest))
      \<longrightarrow> remove_json_fences (code_units ''```json'' @ ws @ rest) = remove_json_fences rest)
   \<and> (\<not> prefix (code_units ''```json'') (c # cs)
      \<longrightarrow> remove_json_fences (c # cs) = c # remove_json_fences cs)
   \<and> (\<not> sublist (code_units ''```json'') s \<longrightarrow> remove_json_fences s = s)
   \<and> remove_fences [] = []
   \<and> ((\<forall>c \<in> set ws. space_unit c) \<and> (rest = [] \<or> \<not> space_unit (hd rest))
      \<longrightarrow> remove_fences (code_units ''```'' @ ws @ rest) = remove_fences rest)
   \<and> (\<not> prefix (code_units ''```'') (c # cs)
      \<longrightarrow> remove_fences (c # cs) = c # remove_fences cs)
   \<and> (\<not> sublist (code_units ''```'') s \<longrightarrow> remove_fences s = s)
   \<and> ((\<forall>c \<in> set ws. space_unit c) \<and> (\<forall>c \<in> set ws'. space_unit c)
       \<and> (core = [] \<or> (\<not> space_unit (hd core) \<and> \<not> space_unit (last core)))
      \<longrightarrow> trim_text (ws @ core @ ws') = core)
   \<and> (space_unit c \<longleftrightarrow>
        c \<in> {9, 10, 11, 12, 13, 32, 160, 5760, 8232, 8233, 8239, 8287, 12288, 65279}
        \<or> (8192 \<le> c \<and> c \<le> 8202))
   \<and> close_unclosed (fix_trailing_commas t) =
        fix_trailing_commas t
        @ replicate (length (filter (\<lambda>c. c = unit_of (CHR ''['')) t)
                     - length (filter (\<lambda>c. c = unit_of (CHR '']'')) t)) (unit_of (CHR '']''))
        @ replicate (length (filter (\<lambda>c. c = unit_of (CHR ''{'')) t)
                     - length (filter (\<lambda>c. c = unit_of (CHR ''}'')) t)) (unit_of (CHR ''}''))
   \<and> [unit_of (CHR ''{''), unit_of (CHR ''}''), unit_of (CHR ''[''), unit_of (CHR '']''),
       unit_of (CHR '','')] = [123, 125, 91, 93, 44]
   \<and> code_units ''```json'' = [96, 96, 96, 106, 115, 111, 110]
   \<and> fix_trailing_commas [] = []
   \<and> filter (\<lambda>c. c \<noteq> unit_of (CHR '','')) (fix_trailing_commas t) =
        filter (\<lambda>c. c \<noteq> unit_of (CHR '','')) t
   \<and> ((\<forall>c \<in> set ws. space_unit c) \<and> (closer = unit_of (CHR ''}'') \<or> closer = unit_of (CHR '']''))
      \<longrightarrow> fix_trailing_commas (unit_of (CHR '','') # ws @ closer # rest) =
            ws @ closer # fix_trailing_commas rest)
   \<and> (\<not> (c = unit_of (CHR '','') \<and> before_closer cs)
      \<longrightarrow> fix_trailing_commas (c # cs) = c # fix_trailing_commas cs)
   \<and> (before_closer cs \<longleftrightarrow>
        (\<exists>ws closer rest. cs = ws @ closer # rest \<and> (\<forall>c \<in> set ws. space_unit c)
           \<and> (closer = unit_of (CHR ''}'') \<or> closer = unit_of (CHR '']''))))"
proof (intro conjI impI)
  show "\<not> sublist (code_units ''```'') (clean raw)"
    by (rule clean_no_fence)
next
  assume "trim_text (remove_fences (remove_json_fences raw)) =
        before @ unit_of (CHR ''{'') # inside @ unit_of (CHR ''}'') # after
      \<and> unit_of (CHR ''{'') \<notin> set before \<and> unit_of (CHR ''}'') \<notin> set after"
  then show "clean raw = unit_of (CHR ''{'') # inside @ [unit_of (CHR ''}'')]"
    by (simp add: clean_def Let_def match_object_span)
next
  assume "unit_of (CHR ''}'') \<notin>
        set (dropWhile (\<lambda>c. c \<noteq> unit_of (CHR ''{'')) (trim_text (remove_fences (remove_json_fences raw))))"
  then show "clean raw = trim_text (remove_fences (remove_json_fences raw))"
    by (simp add: clean_def Let_def match_object_None)
next
  assume "parse (clean raw) = Returns ()"
  then show "reconcile parse g name raw = Returns (respond g name (clean raw))"
    by (simp add: reconcile_def Let_def)
next
  assume "parse (clean raw) = Throws parseError
       \<and> parse (close_unclosed (fix_trailing_commas (clean raw))) = Returns ()"
  then show "reconcile parse g name raw =
            Returns (respond g name (close_unclosed (fix_trailing_commas (clean raw))))"
    by (simp add: reconcile_def Let_def)
next
  assume "parse (clean raw) = Throws parseError
       \<and> parse (close_unclosed (fix_trailing_commas (clean raw))) = Throws fixError"
  then show "reconcile parse g name raw = Throws (invalid_json_message parseError)"
    by (simp add: reconcile_def Let_def)
next
  show "invalid_json_message parseError =
        ''Invalid JSON response from Gemini. The response may be incomplete or malformed. Error: ''
        @ parseError @ ''. Please try again.''"
    by (simp add: invalid_json_message_def)
next
  show "respond g name t =
        \<lparr> content_text = t, model = name,
          input_tokens = (case promptTokenCount g of None \<Rightarrow> 0 | Some n \<Rightarrow> n),
          output_tokens = (case candidatesTokenCount g of None \<Rightarrow> 0 | Some n \<Rightarrow> n) \<rparr>"
    by (simp add: respond_def)
next
  show "remove_json_fences [] = []"
    by simp
next
  assume "(\<forall>c \<in> set ws. space_unit c) \<and> (rest = [] \<or> \<not> space_unit (hd rest))"
  then show "remove_json_fences (code_units ''```json'' @ ws @ rest) = remove_json_fences rest"
    by (simp add: remove_json_fences_marker)
next
  assume "\<not> prefix (code_units ''```json'') (c # cs)"
  then show "remove_json_fences (c # cs) = c # remove_json_fences cs"
    by (rule remove_json_fences_elsewhere)
next
  assume "\<not> sublist (code_units ''```json'') s"
  then show "remove_json_fences s = s"
    by (rule remove_json_fences_without_fence)
next
  show "remove_fences [] = []"
    by simp
next
  assume "(\<forall>c \<in> set ws. space_unit c) \<and> (rest = [] \<or> \<not> space_unit (hd rest))"
  then show "remove_fences (code_units ''```'' @ ws @ rest) = remove_fences rest"
    by (simp add: remove_fences_marker)
next
  assume "\<not> prefix (code_units ''```'') (c # cs)"
  then show "remove_fences (c # cs) = c # remove_fences cs"
    by (rule remove_fences_elsewhere)
next
  assume "\<not> sublist (code_units ''```'') s"
  then show "remove_fences s = s"
    by (rule remove_fences_without_fence)
next
  assume "(\<forall>c \<in> set ws. space_unit c) \<and> (\<forall>c \<in> set ws'. space_unit c)
       \<and> (core = [] \<or> (\<not> space_unit (hd core) \<and> \<not> space_unit (last core)))"
  then show "trim_text (ws @ core @ ws') = core"
    by (simp add: trim_text_core)
next
  show "space_unit c \<longleftrightarrow>
        c \<in> {9, 10, 11, 12, 13, 32, 160, 5760, 8232, 8233, 8239, 8287, 12288, 65279}
        \<or> (8192 \<le> c \<and> c \<le> 8202)"
    by (rule space_unit_def)
next
  show "close_unclosed (fix_trailing_commas t) =
        fix_trailing_commas t
        @ replicate (length (filter (\<lambda>c. c = unit_of (CHR ''['')) t)
                     - length (filter (\<lambda>c. c = unit_of (CHR '']'')) t)) (unit_of (CHR '']''))
        @ replicate (length (filter (\<lambda>c. c = unit_of (CHR ''{'')) t)
                     - length (filter (\<lambda>c. c = unit_of (CHR ''}'')) t)) (unit_of (CHR ''}''))"
    using occurrences_fix_trailing_commas [of _ t]
    by (simp add: close_unclosed_appends unit_values) (simp add: occurrences_def)
next
  show "[unit_of (CHR ''{''), unit_of (CHR ''}''), unit_of (CHR ''[''), unit_of (CHR '']''),
       unit_of (CHR '','')] = [123, 125, 91, 93, 44]"
    by (simp add: unit_values)
next
  show "code_units ''```json'' = [96, 96, 96, 106, 115, 111, 110]"
    by (rule json_fence_units)
next
  show "fix_trailing_commas [] = []"
    by simp
next
  show "filter (\<lambda>c. c \<noteq> unit_of (CHR '','')) (fix_trailing_commas t) =
        filter (\<lambda>c. c \<noteq> unit_of (CHR '','')) t"
    by (rule fix_trailing_commas_keeps)
next
  assume "(\<forall>c \<in> set ws. space_unit c) \<and> (closer = unit_of (CHR ''}'') \<or> closer = unit_of (CHR '']''))"
  then have "\<forall>c \<in> set ws. space_unit c"
    and "closer = unit_of (CHR ''}'') \<or> closer = unit_of (CHR '']'')"
    by simp_all
  then show "fix_trailing_commas (unit_of (CHR '','') # ws @ closer # rest) =
            ws @ closer # fix_trailing_commas rest"
    by (rule fix_trailing_commas_drops)
next
  assume "\<not> (c = unit_of (CHR '','') \<and> before_closer cs)"
  then show "fix_trailing_commas (c # cs) = c # fix_trailing_commas cs"
    by auto
next
  show "before_closer cs \<longleftrightarrow>
        (\<exists>ws closer rest. cs = ws @ closer # rest \<and> (\<forall>c \<in> set ws. space_unit c)
           \<and> (closer = unit_of (CHR ''}'') \<or> closer = unit_of (CHR '']'')))"
    by (rule before_closer_iff)
qed

lemma fenced_reply_stripped:
  \<open>trim_text (remove_fences (remove_json_fences fenced_reply)) =
     code_units ''{"categories":[{"title":"A","items":[],}]''\<close>
  unfolding fenced_reply_def by code_simp

lemma clean_fenced_reply:
  \<open>clean fenced_reply = code_units ''{"categories":[{"title":"A","items":[],}''\<close>
  unfolding fenced_reply_def by code_simp

lemma fenced_reply_not_json:
  \<open>\<not> json_text (code_units ''{"categories":[{"title":"A","items":[],}'')\<close>
  by code_simp

lemma fenced_reply_repaired:
  \<open>close_unclosed (fix_trailing_commas (clean fenced_reply)) =
     code_units ''{"categories":[{"title":"A","items":[]}]}''\<close>
  unfolding fenced_reply_def by code_simp

lemma fenced_reply_repaired_json:
  \<open>json_text (code_units ''{"categories":[{"title":"A","items":[]}]}'')\<close>
  by code_simp

lemma plain_reply_stripped:
  "trim_text (remove_fences (remove_json_fences (code_units ''no''))) = code_units ''no''"
  by code_simp

lemma plain_reply_has_no_span:
  "unit_of (CHR ''}'') \<notin> set (dropWhile (\<lambda>c. c \<noteq> unit_of (CHR ''{'')) (code_units ''no''))"
  by code_simp

lemma remark_first_span:
  \<open>first_top_level_span reply_with_remark = Some (code_units ''{"a":1}'')\<close>
  unfolding reply_with_remark_def by code_simp

lemma remark_first_span_json: \<open>json_text (code_units ''{"a":1}'')\<close>
  by code_simp

lemma remark_clean: "clean reply_with_remark = reply_with_remark"
  unfolding reply_with_remark_def by code_simp

lemma remark_not_json: "\<not> json_text reply_with_remark"
  unfolding reply_with_remark_def by code_simp

lemma remark_repair: "close_unclosed (fix_trailing_commas reply_with_remark) = reply_with_remark"
  unfolding reply_with_remark_def by code_simp

theorem reconciliation_steps_witness:
  \<open>remove_json_fences fenced_reply =
     remove_json_fences
       (code_units (''{"categories":[{"title":"A","items":[],}]'' @ [CHR 0x0A] @ ''```''))
   \<and> remove_fences (code_units ''``` {}'') = remove_fences (code_units ''{}'')
   \<and> trim_text (code_units '' {} '') = code_units ''{}''
   \<and> clean fenced_reply = code_units ''{"categories":[{"title":"A","items":[],}''
   \<and> clean (code_units ''no'') = code_units ''no''
   \<and> fix_trailing_commas (code_units '', }'') = code_units '' }''
   \<and> reconcile (JSON_parse engine_message)
        \<lparr> response_text = Returns (code_units ''{}''), promptTokenCount = None,
          candidatesTokenCount = Some 2 \<rparr>
        ''gemini-2.0-flash'' (code_units ''{}'') =
      Returns \<lparr> content_text = code_units ''{}'', model = ''gemini-2.0-flash'',
                input_tokens = 0, output_tokens = 2 \<rparr>
   \<and> JSON_parse engine_message (clean fenced_reply) = Throws ''Unexpected end of JSON input''
   \<and> JSON_parse engine_message (close_unclosed (fix_trailing_commas (clean fenced_reply))) = Returns ()
   \<and> reconcile (JSON_parse engine_message)
        \<lparr> response_text = Returns fenced_reply, promptTokenCount = Some 10,
          candidatesTokenCount = None \<rparr>
        ''gemini-2.5-pro'' fenced_reply =
      Returns \<lparr> content_text = code_units ''{"categories":[{"title":"A","items":[]}]}'',
                model = ''gemini-2.5-pro'', input_tokens = 10, output_tokens = 0 \<rparr>
   \<and> reconcile (JSON_parse engine_message)
        \<lparr> response_text = Returns reply_with_remark, promptTokenCount = Some 10,
          candidatesTokenCount = Some 5 \<rparr>
        ''gemini-2.5-pro'' reply_with_remark =
      Throws (''Invalid JSON response from Gemini. The response may be incomplete or malformed. '' @
              ''Error: Unexpected end of JSON input. Please try again.'')\<close>
proof -
  let ?g = "\<lparr> response_text = Returns fenced_reply, promptTokenCount = Some 10,
              candidatesTokenCount = None \<rparr>"
  let ?h = "\<lparr> response_text = Returns (code_units ''{}''), promptTokenCount = None,
              candidatesTokenCount = Some 2 \<rparr>"
  let ?k = "\<lparr> response_text = Returns reply_with_remark, promptTokenCount = Some 10,
              candidatesTokenCount = Some 5 \<rparr>"
  let ?p = "JSON_parse engine_message"
  note fenced = reconciliation_steps [where parse = ?p and raw = fenced_reply
      and g = ?g and name = "''gemini-2.5-pro''" and t = "clean fenced_reply"
      and parseError = "''Unexpected end of JSON input''"
      and before = "[]" and inside = \<open>code_units ''"categories":[{"title":"A","items":[],''\<close>
      and after = "code_units '']''"
      and ws = "[10]"
      and rest = \<open>code_units (''{"categories":[{"title":"A","items":[],}]'' @ [CHR 0x0A] @ ''```'')\<close>]
  note plain = reconciliation_steps [where parse = ?p and raw = "code_units ''no''"]
  note empty = reconciliation_steps [where parse = ?p and raw = "code_units ''{}''"
      and g = ?h and name = "''gemini-2.0-flash''" and t = "code_units ''{}''"
      and ws = "[32]" and rest = "code_units ''{}''" and ws' = "[32]" and core = "code_units ''{}''"
      and closer = "unit_of (CHR ''}'')"]
  note remark = reconciliation_steps [where parse = ?p and raw = reply_with_remark
      and g = ?k and name = "''gemini-2.5-pro''"
      and parseError = "''Unexpected end of JSON input''"
      and fixError = "''Unexpected end of JSON input''"
      and ws = "[32]" and closer = "unit_of (CHR ''}'')" and rest = "[]"]
  have space: "\<forall>c \<in> set [10]. space_unit c" "\<forall>c \<in> set [32]. space_unit c"
    "\<not> space_unit (hd (code_units ''{}''))" "\<not> space_unit (last (code_units ''{}''))"
    \<open>\<not> space_unit (hd (code_units (''{"categories":[{"title":"A","items":[],}]'' @ [CHR 0x0A] @ ''```'')))\<close>
    by (simp_all add: space_unit_def code_units_def unit_of_def)
  from fenced [THEN conjunct2, THEN conjunct2, THEN conjunct2, THEN conjunct2, THEN conjunct2, THEN conjunct2, THEN conjunct2, THEN conjunct2, THEN conjunct2, THEN conjunct1] space
  have \<open>remove_json_fences (code_units ''```json'' @ [10] @
            code_units (''{"categories":[{"title":"A","items":[],}]'' @ [CHR 0x0A] @ ''```'')) =
        remove_json_fences
          (code_units (''{"categories":[{"title":"A","items":[],}]'' @ [CHR 0x0A] @ ''```''))\<close>
    by blast
  then have marker: \<open>remove_json_fences fenced_reply =
     remove_json_fences
       (code_units (''{"categories":[{"title":"A","items":[],}]'' @ [CHR 0x0A] @ ''```''))\<close>
    by (simp add: fenced_reply_def code_units_def unit_of_def)
  from empty [THEN conjunct2, THEN conjunct2, THEN conjunct2, THEN conjunct2, THEN conjunct2, THEN conjunct2, THEN conjunct2, THEN conjunct2, THEN conjunct2, THEN conjunct2, THEN conjunct2, THEN conjunct2, THEN conjunct2, THEN conjunct1] space
  have "remove_fences (code_units ''```'' @ [32] @ code_units ''{}'') = remove_fences (code_units ''{}'')"
    by blast
  then have fence: "remove_fences (code_units ''``` {}'') = remove_fences (code_units ''{}'')"
    by (simp add: code_units_def unit_of_def)
  from empty [THEN conjunct2, THEN conjunct2, THEN conjunct2, THEN conjunct2, THEN conjunct2, THEN conjunct2, THEN conjunct2, THEN conjunct2, THEN conjunct2, THEN conjunct2, THEN conjunct2, THEN conjunct2, THEN conjunct2, THEN conjunct2, THEN conjunct2, THEN conjunct2, THEN conjunct1] space
  have "trim_text ([32] @ code_units ''{}'' @ [32]) = code_units ''{}''"
    by blast
  then have trimmed: "trim_text (code_units '' {} '') = code_units ''{}''"
    by (simp add: code_units_def unit_of_def)
  have \<open>trim_text (remove_fences (remove_json_fences fenced_reply)) =
        [] @ unit_of (CHR ''{'') # code_units ''"categories":[{"title":"A","items":[],'' @
        unit_of (CHR ''}'') # code_units '']''\<close>
    "unit_of (CHR ''{'') \<notin> set []" "unit_of (CHR ''}'') \<notin> set (code_units '']'')"
    by (simp_all add: fenced_reply_stripped code_units_def unit_of_def)
  with fenced [THEN conjunct2, THEN conjunct1]
  have \<open>clean fenced_reply =
        unit_of (CHR ''{'') # code_units ''"categories":[{"title":"A","items":[],'' @
        [unit_of (CHR ''}'')]\<close>
    by blast
  then have span: \<open>clean fenced_reply = code_units ''{"categories":[{"title":"A","items":[],}''\<close>
    by (simp add: code_units_def)
  from plain [THEN conjunct2, THEN conjunct2, THEN conjunct1] plain_reply_has_no_span
  have no_span: "clean (code_units ''no'') = code_units ''no''"
    by (simp add: plain_reply_stripped)
  from remark [THEN conjunct2, THEN conjunct2, THEN conjunct2, THEN conjunct2, THEN conjunct2, THEN conjunct2, THEN conjunct2, THEN conjunct2, THEN conjunct2, THEN conjunct2, THEN conjunct2, THEN conjunct2, THEN conjunct2, THEN conjunct2, THEN conjunct2, THEN conjunct2, THEN conjunct2, THEN conjunct2, THEN conjunct2, THEN conjunct2, THEN conjunct2, THEN conjunct2, THEN conjunct2, THEN conjunct1] space
  have "fix_trailing_commas (unit_of (CHR '','') # [32] @ unit_of (CHR ''}'') # []) =
        [32] @ unit_of (CHR ''}'') # fix_trailing_commas []"
    by blast
  then have comma: "fix_trailing_commas (code_units '', }'') = code_units '' }''"
    by (simp add: code_units_def unit_of_def)
  have "JSON_parse engine_message (clean (code_units ''{}'')) = Returns ()"
    by (simp add: clean_empty_object JSON_parse_def empty_object_is_json)
  with empty [THEN conjunct2, THEN conjunct2, THEN conjunct2, THEN conjunct1]
  have "reconcile ?p ?h ''gemini-2.0-flash'' (code_units ''{}'') =
      Returns (respond ?h ''gemini-2.0-flash'' (clean (code_units ''{}'')))"
    by blast
  then have parsed: "reconcile ?p ?h ''gemini-2.0-flash'' (code_units ''{}'') =
      Returns \<lparr> content_text = code_units ''{}'', model = ''gemini-2.0-flash'',
                input_tokens = 0, output_tokens = 2 \<rparr>"
    by (simp add: respond_def clean_empty_object)
  have first: "?p (clean fenced_reply) = Throws ''Unexpected end of JSON input''"
    by (simp add: JSON_parse_def clean_fenced_reply fenced_reply_not_json engine_message_def)
  have second: "?p (close_unclosed (fix_trailing_commas (clean fenced_reply))) = Returns ()"
    by (simp add: JSON_parse_def fenced_reply_repaired fenced_reply_repaired_json)
  from fenced [THEN conjunct2, THEN conjunct2, THEN conjunct2, THEN conjunct2, THEN conjunct1] first second
  have "reconcile ?p ?g ''gemini-2.5-pro'' fenced_reply =
      Returns (respond ?g ''gemini-2.5-pro'' (close_unclosed (fix_trailing_commas (clean fenced_reply))))"
    by blast
  then have repaired: \<open>reconcile ?p ?g ''gemini-2.5-pro'' fenced_reply =
      Returns \<lparr> content_text = code_units ''{"categories":[{"title":"A","items":[]}]}'',
                model = ''gemini-2.5-pro'', input_tokens = 10, output_tokens = 0 \<rparr>\<close>
    by (simp add: respond_def fenced_reply_repaired)
  have "?p (clean reply_with_remark) = Throws ''Unexpected end of JSON input''"
    "?p (close_unclosed (fix_trailing_commas (clean reply_with_remark))) =
       Throws ''Unexpected end of JSON input''"
    by (simp_all add: JSON_parse_def remark_clean remark_repair remark_not_json engine_message_def)
  with remark [THEN conjunct2, THEN conjunct2, THEN conjunct2, THEN conjunct2, THEN conjunct2, THEN conjunct1]
  have "reconcile ?p ?k ''gemini-2.5-pro'' reply_with_remark =
      Throws (invalid_json_message ''Unexpected end of JSON input'')"
    by blast
  with remark [THEN conjunct2, THEN conjunct2, THEN conjunct2, THEN conjunct2, THEN conjunct2, THEN conjunct2, THEN conjunct1] have failed: "reconcile ?p ?k ''gemini-2.5-pro'' reply_with_remark =
      Throws (''Invalid JSON response from Gemini. The response may be incomplete or malformed. '' @
              ''Error: Unexpected end of JSON input. Please try again.'')"
    by simp
  from marker fence trimmed span no_span comma parsed first second repaired failed
  show ?thesis by blast
qed

text \<open>
  C5, as stated, fails: in the reply \<open>reply_with_remark\<close> the first top-level span is an
  object that parses, followed by a remark that holds a closing brace. The cleaned text is
  the whole reply, up to that last brace; it does not parse, the repair leaves it as it
  is, and the reconciliation throws.
\<close>

theorem greedy_span_counterexample:
  \<open>first_top_level_span reply_with_remark = Some (code_units ''{"a":1}'')
   \<and> JSON_parse engine_message (code_units ''{"a":1}'') = Returns ()
   \<and> clean reply_with_remark = reply_with_remark
   \<and> clean reply_with_remark \<noteq> code_units ''{"a":1}''
   \<and> reconcile (JSON_parse engine_message)
        \<lparr> response_text = Returns reply_with_remark, promptTokenCount = Some 10,
          candidatesTokenCount = Some 5 \<rparr>
        ''gemini-2.5-pro'' reply_with_remark =
      Throws (invalid_json_message (engine_message reply_with_remark))\<close>
proof -
  have \<open>reply_with_remark \<noteq> code_units ''{"a":1}''\<close>
    unfolding reply_with_remark_def by (simp add: code_units_def)
  then show ?thesis
    by (simp add: remark_first_span remark_first_span_json remark_clean reconcile_def Let_def
          JSON_parse_def remark_not_json remark_repair)
qed

lemma truncated_reply_clean: "clean truncated_reply = truncated_reply"
  unfolding truncated_reply_def by code_simp

lemma truncated_reply_not_json: "\<not> json_text truncated_reply"
  unfolding truncated_reply_def by code_simp

lemma truncated_reply_tokens:
  "scan Idle (truncated_reply @ code_units '']}'') =
     Some [LBrace, TString, Colon, TString, Comma, TString, Colon, LBracket, TNumber,
           RBracket, RBrace]"
  unfolding truncated_reply_def by code_simp

lemma truncated_reply_closable: "json_text (truncated_reply @ code_units '']}'')"
  unfolding truncated_reply_def by code_simp

lemma truncated_reply_counts:
  "occurrences (unit_of (CHR ''['')) truncated_reply = 2"
  "occurrences (unit_of (CHR '']'')) truncated_reply = 0"
  "occurrences (unit_of (CHR ''{'')) truncated_reply = 1"
  "occurrences (unit_of (CHR ''}'')) truncated_reply = 0"
  unfolding truncated_reply_def by code_simp+

lemma truncated_reply_repair:
  "close_unclosed (fix_trailing_commas truncated_reply) = truncated_reply @ code_units '']]}''"
  unfolding truncated_reply_def by code_simp

lemma truncated_reply_repair_not_json: "\<not> json_text (truncated_reply @ code_units '']]}'')"
  unfolding truncated_reply_def by code_simp

text \<open>
  C10. The repair counts every occurrence of the four bracket characters, wherever it
  stands. The reply \<open>truncated_reply\<close> is valid JSON cut off inside an array: appending
  a closing bracket and a closing brace makes it parse, and its tokens hold one opening
  bracket. Its text holds two, one inside a string value, so the repair appends two
  closing brackets and a closing brace, the result does not parse, and the
  reconciliation throws.
\<close>

theorem brackets_in_strings_are_counted:
  "close_unclosed t =
     t @ replicate (length (filter (\<lambda>c. c = unit_of (CHR ''['')) t)
                    - length (filter (\<lambda>c. c = unit_of (CHR '']'')) t)) (unit_of (CHR '']''))
       @ replicate (length (filter (\<lambda>c. c = unit_of (CHR ''{'')) t)
                    - length (filter (\<lambda>c. c = unit_of (CHR ''}'')) t)) (unit_of (CHR ''}''))
   \<and> \<not> json_text truncated_reply
   \<and> json_text (truncated_reply @ code_units '']}'')
   \<and> scan Idle (truncated_reply @ code_units '']}'') =
       Some [LBrace, TString, Colon, TString, Comma, TString, Colon, LBracket, TNumber,
             RBracket, RBrace]
   \<and> occurrences (unit_of (CHR ''['')) truncated_reply = 2
   \<and> clean truncated_reply = truncated_reply
   \<and> close_unclosed (fix_trailing_commas (clean truncated_reply)) =
       truncated_reply @ code_units '']]}''
   \<and> \<not> json_text (truncated_reply @ code_units '']]}'')
   \<and> reconcile (JSON_parse syntax_error) g name truncated_reply =
       Throws (invalid_json_message (syntax_error truncated_reply))"
proof (intro conjI)
  show "close_unclosed t =
     t @ replicate (length (filter (\<lambda>c. c = unit_of (CHR ''['')) t)
                    - length (filter (\<lambda>c. c = unit_of (CHR '']'')) t)) (unit_of (CHR '']''))
       @ replicate (length (filter (\<lambda>c. c = unit_of (CHR ''{'')) t)
                    - length (filter (\<lambda>c. c = unit_of (CHR ''}'')) t)) (unit_of (CHR ''}''))"
    by (simp add: close_unclosed_appends occurrences_def)
  show "reconcile (JSON_parse syntax_error) g name truncated_reply =
       Throws (invalid_json_message (syntax_error truncated_reply))"
    by (simp add: reconcile_def Let_def truncated_reply_clean truncated_reply_repair JSON_parse_def
          truncated_reply_not_json truncated_reply_repair_not_json)
  show "close_unclosed (fix_trailing_commas (clean truncated_reply)) =
       truncated_reply @ code_units '']]}''"
    by (simp only: truncated_reply_clean truncated_reply_repair)
qed (simp_all only: truncated_reply_not_json truncated_reply_closable truncated_reply_tokens
      truncated_reply_counts truncated_reply_clean truncated_reply_repair_not_json
      not_False_eq_True)

end
